theory Spec2Isabelle
  imports Complex_Main
begin

section \<open>JavaScript strings\<close>

text \<open>
  The server is TypeScript; its strings are modelled as \<^typ>\<open>string\<close>, one \<^typ>\<open>char\<close> per
  code unit below 256. The character classes are the ones the source's regular expressions
  and \<^verbatim>\<open>String.prototype.trim\<close> use on that range: \<^verbatim>\<open>\d\<close> is the ten ASCII digits,
  \<^verbatim>\<open>\w\<close> is the ASCII letters, the digits and the underscore, white space is TAB, LF, VT, FF,
  CR, SPACE and NBSP, and the line terminators that \<^verbatim>\<open>.\<close> refuses are LF and CR.
\<close>

definition is_digit :: "char \<Rightarrow> bool" where
  "is_digit c = (c \<in> set ''0123456789'')"

definition is_w :: "char \<Rightarrow> bool" where
  "is_w c = (c \<in> set ''abcdefghijklmnopqrstuvwxyzABCDEFGHIJKLMNOPQRSTUVWXYZ0123456789_'')"

definition is_space :: "char \<Rightarrow> bool" where
  "is_space c = (c \<in> set [CHR 0x09, CHR 0x0A, CHR 0x0B, CHR 0x0C, CHR 0x0D, CHR 0x20, CHR 0xA0])"

definition is_line_terminator :: "char \<Rightarrow> bool" where
  "is_line_terminator c = (c \<in> set [CHR 0x0A, CHR 0x0D])"

definition newline :: string where
  "newline = [CHR 0x0A]"

definition trim :: "string \<Rightarrow> string" where
  "trim s = rev (dropWhile is_space (rev (dropWhile is_space s)))"

text \<open>\<^verbatim>\<open>s.substring(a, b)\<close> on indices that are not negative: the two are swapped when
  \<^verbatim>\<open>a > b\<close> and both are clamped to the length.\<close>

definition substring :: "string \<Rightarrow> nat \<Rightarrow> nat \<Rightarrow> string" where
  "substring s a b = take (max a b - min a b) (drop (min a b) s)"

text \<open>\<^verbatim>\<open>s.lastIndexOf(c)\<close>; \<^verbatim>\<open>-1\<close> is \<^term>\<open>None\<close>.\<close>

fun lastIndexOf :: "string \<Rightarrow> char \<Rightarrow> nat option" where
  "lastIndexOf [] c = None"
| "lastIndexOf (x # xs) c =
     (case lastIndexOf xs c of
        Some i \<Rightarrow> Some (Suc i)
      | None \<Rightarrow> if x = c then Some 0 else None)"

text \<open>\<^verbatim>\<open>s.split(sep)\<close> for a separator of one character: the pieces between the separators,
  the empty string giving one empty piece.\<close>

fun split_acc :: "char \<Rightarrow> string \<Rightarrow> string \<Rightarrow> string list" where
  "split_acc sep cur [] = [cur]"
| "split_acc sep cur (c # cs) =
     (if c = sep then cur # split_acc sep [] cs else split_acc sep (cur @ [c]) cs)"

definition split_on :: "char \<Rightarrow> string \<Rightarrow> string list" where
  "split_on sep s = split_acc sep [] s"

text \<open>\<^verbatim>\<open>xs.join(sep)\<close>.\<close>

fun join :: "string \<Rightarrow> string list \<Rightarrow> string" where
  "join sep [] = []"
| "join sep [x] = x"
| "join sep (x # y # ys) = x @ sep @ join sep (y # ys)"

text \<open>\<^verbatim>\<open>xs.slice(a, b)\<close> on indices that are not negative, and \<^verbatim>\<open>xs[i]\<close>, which is
  \<^verbatim>\<open>undefined\<close> (\<^term>\<open>None\<close>) out of range.\<close>

definition slice :: "'a list \<Rightarrow> nat \<Rightarrow> nat \<Rightarrow> 'a list" where
  "slice xs a b = drop a (take b xs)"

definition at_index :: "'a list \<Rightarrow> nat \<Rightarrow> 'a option" where
  "at_index xs i = (if i < length xs then Some (xs ! i) else None)"

text \<open>\<^verbatim>\<open>String(n)\<close> for a natural number, and \<^verbatim>\<open>s.padStart(n, c)\<close>.\<close>

definition digit_char :: "nat \<Rightarrow> char" where
  "digit_char d = ''0123456789'' ! d"

function decimal :: "nat \<Rightarrow> string" where
  "decimal n = (if n < 10 then [digit_char n] else decimal (n div 10) @ [digit_char (n mod 10)])"
  by pat_completeness auto
termination
  by (relation "measure (\<lambda>n. n)") auto

declare decimal.simps [simp del]

definition padStart :: "nat \<Rightarrow> char \<Rightarrow> string \<Rightarrow> string" where
  "padStart n c s = replicate (n - length s) c @ s"

text \<open>A template literal prints \<^verbatim>\<open>undefined\<close> for a value that is not there.\<close>

definition interpolate :: "string option \<Rightarrow> string" where
  "interpolate v = (case v of None \<Rightarrow> ''undefined'' | Some s \<Rightarrow> s)"


section \<open>Text-position utilities\<close>

text \<open>
  \<^verbatim>\<open>getCurrentParameterIndex(line, position)\<close>. The loop over \<^verbatim>\<open>relevantText\<close> carries
  \<^verbatim>\<open>paramCount\<close> and \<^verbatim>\<open>nestedLevel\<close>; the level is a signed number, since a closing
  parenthesis takes it below zero.
\<close>

fun count_params :: "string \<Rightarrow> nat \<Rightarrow> int \<Rightarrow> nat" where
  "count_params [] paramCount nestedLevel = paramCount"
| "count_params (c # cs) paramCount nestedLevel =
     (if c = CHR ''('' then count_params cs paramCount (nestedLevel + 1)
      else if c = CHR '')'' then count_params cs paramCount (nestedLevel - 1)
      else if c = CHR '','' \<and> nestedLevel = 0 then count_params cs (paramCount + 1) nestedLevel
      else count_params cs paramCount nestedLevel)"

definition getCurrentParameterIndex :: "string \<Rightarrow> nat \<Rightarrow> nat" where
  "getCurrentParameterIndex line position =
     (let textToCursor = substring line 0 position in
      case lastIndexOf textToCursor (CHR ''('') of
        None \<Rightarrow> 0
      | Some openParenIndex \<Rightarrow>
          count_params (drop (openParenIndex + 1) textToCursor) 0 0)"

text \<open>
  The specification's \<^verbatim>\<open>ParameterIndexAt\<close>, written from its words, to compare with the code:
  scan left from the cursor for the last open parenthesis that no closing parenthesis
  between it and the cursor matches; none gives 0; otherwise count, from that parenthesis
  to the cursor, the commas at nesting depth 0, the depth going up at an opening and down
  at a closing parenthesis.
\<close>

fun after_unmatched_open :: "string \<Rightarrow> nat \<Rightarrow> string \<Rightarrow> string option" where
  "after_unmatched_open [] pending passed = None"
| "after_unmatched_open (c # cs) pending passed =
     (if c = CHR '')'' then after_unmatched_open cs (Suc pending) (c # passed)
      else if c = CHR ''('' then
        (if pending = 0 then Some passed else after_unmatched_open cs (pending - 1) (c # passed))
      else after_unmatched_open cs pending (c # passed))"

fun commas_at_depth0 :: "string \<Rightarrow> int \<Rightarrow> nat" where
  "commas_at_depth0 [] depth = 0"
| "commas_at_depth0 (c # cs) depth =
     (if c = CHR ''('' then commas_at_depth0 cs (depth + 1)
      else if c = CHR '')'' then commas_at_depth0 cs (depth - 1)
      else if c = CHR '','' \<and> depth = 0 then Suc (commas_at_depth0 cs depth)
      else commas_at_depth0 cs depth)"

definition ParameterIndexAt_spec :: "string \<Rightarrow> nat \<Rightarrow> nat" where
  "ParameterIndexAt_spec line pos =
     (case after_unmatched_open (rev (take pos line)) 0 [] of
        None \<Rightarrow> 0
      | Some between \<Rightarrow> commas_at_depth0 between 0)"

text \<open>
  \<^verbatim>\<open>getWordRangeAtPosition(line, position)\<close>. The identifier class is the source's
  \<^verbatim>\<open>/[\w\d\._]/\<close>. The position is a JavaScript number, so the test \<^verbatim>\<open>position < 0\<close> is
  kept; the two \<^verbatim>\<open>while\<close> loops move \<^verbatim>\<open>start\<close> left and \<^verbatim>\<open>end\<close> right.
\<close>

definition is_identifier_char :: "char \<Rightarrow> bool" where
  "is_identifier_char c = (is_w c \<or> is_digit c \<or> c = CHR ''.'' \<or> c = CHR ''_'')"

record word_range =
  start :: nat
  end' :: nat

fun scan_start :: "string \<Rightarrow> nat \<Rightarrow> nat" where
  "scan_start line 0 = 0"
| "scan_start line (Suc n) =
     (if is_identifier_char (line ! n) then scan_start line n else Suc n)"

function scan_end :: "string \<Rightarrow> nat \<Rightarrow> nat" where
  "scan_end line e =
     (if e < length line \<and> is_identifier_char (line ! e) then scan_end line (Suc e) else e)"
  by pat_completeness auto
termination
  by (relation "measure (\<lambda>(line, e). length line - e)") auto

declare scan_end.simps [simp del]

definition getWordRangeAtPosition :: "string \<Rightarrow> int \<Rightarrow> word_range option" where
  "getWordRangeAtPosition line position =
     (if line = [] \<or> position < 0 \<or> position \<ge> int (length line) then None
      else if \<not> is_identifier_char (line ! nat position) then None
      else
        let start = scan_start line (nat position);
            end = scan_end line (nat position + 1)
        in if start = end \<or> end \<le> start then None
           else Some \<lparr>start = start, end' = end\<rparr>)"


section \<open>The inference client\<close>

text \<open>
  The three environment variables are read once; each is a string or absent. A JSON value
  is what \<^verbatim>\<open>JSON.parse\<close> returns. The client is typed \<^verbatim>\<open>Promise<string>\<close>, but it resolves
  with whatever value the reply holds under \<^verbatim>\<open>generated_text\<close>, so its result is a JSON
  value here and each caller meets a \<^verbatim>\<open>TypeError\<close> where it calls a string method on a
  value that is not a string.
\<close>

record config =
  HUGGINGFACE_API_URL :: "string option"
  HUGGINGFACE_API_PATH :: "string option"
  HUGGINGFACE_API_KEY :: "string option"

datatype js_error = Error string | TypeError | SyntaxError

datatype json =
    JNull
  | JBool bool
  | JNum rat
  | JStr string
  | JArr "json list"
  | JObj "(string \<times> json) list"

text \<open>JavaScript truthiness; \<^term>\<open>None\<close> is \<^verbatim>\<open>undefined\<close>.\<close>

fun truthy :: "json option \<Rightarrow> bool" where
  "truthy None = False"
| "truthy (Some JNull) = False"
| "truthy (Some (JBool b)) = b"
| "truthy (Some (JNum q)) = (q \<noteq> 0)"
| "truthy (Some (JStr s)) = (s \<noteq> [])"
| "truthy (Some (JArr xs)) = True"
| "truthy (Some (JObj kvs)) = True"

text \<open>\<^verbatim>\<open>v.generated_text\<close>: the member of an object (an object is the list of its members,
  each name once), \<^verbatim>\<open>undefined\<close> on any other value, and a \<^verbatim>\<open>TypeError\<close> on \<^verbatim>\<open>null\<close>.\<close>

fun generated_text :: "json \<Rightarrow> js_error + json option" where
  "generated_text JNull = Inl TypeError"
| "generated_text (JObj kvs) = Inr (map_of kvs ''generated_text'')"
| "generated_text v = Inr None"

text \<open>
  What the network does with one request that was written, as the HTTP library reports
  it: the time it takes to get a connected socket, then the successive periods, in
  milliseconds, during which the socket is inactive, each ended by activity on the socket,
  and what the last period ends with: the request's \<^verbatim>\<open>error\<close> event, the \<^verbatim>\<open>end\<close> of a
  response with its status code and its body (which \<^verbatim>\<open>JSON.parse\<close> either parses or
  rejects), or nothing, the socket staying silent for ever. A connection that fails is an
  error event after no period of inactivity.

  \<^verbatim>\<open>req.setTimeout(5000, ...)\<close> sets the inactivity timer of the socket once it is
  connected: its callback runs when a period of inactivity reaches the value set, and
  never during the connection. The promise is settled by whichever comes first, and the
  later calls of \<^verbatim>\<open>resolve\<close> and \<^verbatim>\<open>reject\<close> do nothing. Without a timer firing, the call
  lasts \<^verbatim>\<open>elapsed_ms\<close>.
\<close>

datatype body = Unparseable | Parsed json

datatype reply =
    RequestError js_error
  | Silence
  | Response nat body

record upstream =
  connect_ms :: nat
  idle_ms :: "nat list"
  final :: reply

definition timer_fires :: "nat \<Rightarrow> upstream \<Rightarrow> bool" where
  "timer_fires ms up = list_ex (\<lambda>idle. ms \<le> idle) (idle_ms up)"

definition elapsed_ms :: "upstream \<Rightarrow> nat" where
  "elapsed_ms up = connect_ms up + sum_list (idle_ms up)"

text \<open>A network that answers at once, with no delay at all.\<close>

definition at_once :: "reply \<Rightarrow> upstream" where
  "at_once r = \<lparr>connect_ms = 0, idle_ms = [], final = r\<rparr>"

text \<open>
  \<^verbatim>\<open>https.request\<close> checks its options before anything is written and throws a
  \<^verbatim>\<open>TypeError\<close> when the path holds a character outside \<^verbatim>\<open>\x21-\xff\<close>, or when a
  header value (here the \<^verbatim>\<open>Authorization\<close> header made from the key, and the \<^verbatim>\<open>Host\<close>
  header made from the host name) holds a character outside \<^verbatim>\<open>\t\x20-\x7e\x80-\xff\<close>.
  The throw happens inside the executor of the promise, which rejects with it; no request
  is written and no timer is set. The request records what the code puts into the options
  and the JSON body, the two sampling parameters as fractions, and the value the timer is
  set to; the \<^verbatim>\<open>Content-Length\<close> header is left out.
\<close>

definition is_path_char :: "char \<Rightarrow> bool" where
  "is_path_char c = (0x21 \<le> (of_char c :: nat))"

definition is_header_char :: "char \<Rightarrow> bool" where
  "is_header_char c =
     (c = CHR 0x09 \<or> (0x20 \<le> (of_char c :: nat) \<and> (of_char c :: nat) \<noteq> 0x7F))"

definition request_throws :: "config \<Rightarrow> string \<Rightarrow> bool" where
  "request_throws cfg key =
     (\<not> list_all is_path_char (case HUGGINGFACE_API_PATH cfg of None \<Rightarrow> [] | Some p \<Rightarrow> p)
      \<or> \<not> list_all is_header_char (''Bearer '' @ key)
      \<or> \<not> list_all is_header_char (case HUGGINGFACE_API_URL cfg of None \<Rightarrow> [] | Some h \<Rightarrow> h))"

record http_request =
  hostname :: "string option"
  path :: "string option"
  http_method :: string
  authorization :: string
  content_type :: string
  inputs :: string
  max_new_tokens :: nat
  return_full_text :: bool
  do_sample :: bool
  temperature :: rat
  top_p :: rat
  timeout_ms :: nat

record api_result =
  sent :: "http_request option"
  settled :: "js_error + json"

text \<open>The body of the \<^verbatim>\<open>try\<close> in the \<^verbatim>\<open>end\<close> handler; \<^term>\<open>Inl\<close> is what its \<^verbatim>\<open>catch\<close>
  receives.\<close>

definition read_reply :: "body \<Rightarrow> js_error + json" where
  "read_reply b =
     (case b of
        Unparseable \<Rightarrow> Inl SyntaxError
      | Parsed parsedData \<Rightarrow>
          (case generated_text parsedData of
             Inl e \<Rightarrow> Inl e
           | Inr g \<Rightarrow>
               (case (if truthy g then g else None) of
                  Some text \<Rightarrow> Inr text
                | None \<Rightarrow>
                    (case parsedData of
                       JArr (first # rest) \<Rightarrow>
                         (case generated_text first of
                            Inl e \<Rightarrow> Inl e
                          | Inr g0 \<Rightarrow>
                              (case (if truthy g0 then g0 else None) of
                                 Some text \<Rightarrow> Inr text
                               | None \<Rightarrow> Inr (JStr [])))
                     | _ \<Rightarrow> Inr (JStr [])))))"

definition on_end :: "nat \<Rightarrow> body \<Rightarrow> json" where
  "on_end statusCode b =
     (if statusCode \<noteq> 200 then JStr []
      else case read_reply b of Inl e \<Rightarrow> JStr [] | Inr v \<Rightarrow> v)"

definition callHuggingFaceAPI :: "config \<Rightarrow> upstream \<Rightarrow> string \<Rightarrow> nat \<Rightarrow> api_result" where
  "callHuggingFaceAPI cfg up prompt maxTokens =
     (case HUGGINGFACE_API_KEY cfg of
        None \<Rightarrow> \<lparr>sent = None, settled = Inl (Error ''Hugging Face API Key is missing'')\<rparr>
      | Some key \<Rightarrow>
          if key = [] then
            \<lparr>sent = None, settled = Inl (Error ''Hugging Face API Key is missing'')\<rparr>
          else if request_throws cfg key then
            \<lparr>sent = None, settled = Inl TypeError\<rparr>
          else
            let req =
              \<lparr>hostname = HUGGINGFACE_API_URL cfg,
               path = HUGGINGFACE_API_PATH cfg,
               http_method = ''POST'',
               authorization = ''Bearer '' @ key,
               content_type = ''application/json'',
               inputs = prompt,
               max_new_tokens = maxTokens,
               return_full_text = False,
               do_sample = True,
               temperature = 3 / 10,
               top_p = 95 / 100,
               timeout_ms = 5000\<rparr>
            in \<lparr>sent = Some req,
                settled =
                  (if timer_fires (timeout_ms req) up then Inl (Error ''Request timed out'')
                   else case final up of
                          RequestError error \<Rightarrow> Inl error
                        | Silence \<Rightarrow> Inl (Error ''Request timed out'')
                        | Response statusCode b \<Rightarrow> Inr (on_end statusCode b))\<rparr>)"


text \<open>
  The reply shapes as the specification words them, to compare with the code: the
  generated-text field that a parsed body exposes is the member of an object, or the member
  of the object that comes first in a non-empty array; the text of a reply is that field
  when it is truthy and the empty string otherwise.
\<close>

definition exposed_text :: "json \<Rightarrow> json option" where
  "exposed_text parsedData =
     (case parsedData of
        JObj kvs \<Rightarrow> map_of kvs ''generated_text''
      | JArr (JObj kvs # rest) \<Rightarrow> map_of kvs ''generated_text''
      | _ \<Rightarrow> None)"

definition reply_text_spec :: "json \<Rightarrow> json" where
  "reply_text_spec parsedData =
     (case exposed_text parsedData of
        Some v \<Rightarrow> if truthy (Some v) then v else JStr []
      | None \<Rightarrow> JStr [])"


section \<open>Request handlers\<close>

text \<open>
  A handler is an \<^verbatim>\<open>async\<close> function: it either returns a value to the protocol layer or
  throws. Beside that outcome the model records the calls of the inference client the
  handler made (prompt and token limit) and the HTTPS requests that were written. Writing
  to the log is not modelled.
\<close>

datatype 'a outcome = Returned 'a | Thrown js_error

record 'a handled =
  invoked :: "(string \<times> nat) list"
  requests :: "http_request list"
  outcome :: "'a outcome"

record position =
  line :: nat
  character :: nat

record text_document_position =
  uri :: string
  position :: position

record completion_item =
  label :: string
  kind :: nat
  sortText :: "string option"
  insertText :: "string option"
  detail :: "string option"
  documentation :: "string option"

definition CompletionItemKind_Text :: nat where
  "CompletionItemKind_Text = 1"

definition indent :: "nat \<Rightarrow> string" where
  "indent n = replicate n (CHR '' '')"

definition sent_list :: "api_result \<Rightarrow> http_request list" where
  "sent_list r = (case sent r of None \<Rightarrow> [] | Some q \<Rightarrow> [q])"

subsection \<open>Completion\<close>

text \<open>
  \<^verbatim>\<open>completionText.split(/\d+\./)\<close>: the pattern matches at a position exactly when one or
  more digits followed by a dot start there, and it takes all of those digits. The text is
  cut at each match found from left to right.
\<close>

definition match_number_dot :: "string \<Rightarrow> string option" where
  "match_number_dot s =
     (case dropWhile is_digit s of
        [] \<Rightarrow> None
      | c # after \<Rightarrow>
          if takeWhile is_digit s \<noteq> [] \<and> c = CHR ''.'' then Some after else None)"

function split_number_dot :: "string \<Rightarrow> string \<Rightarrow> string list" where
  "split_number_dot cur [] = [cur]"
| "split_number_dot cur (c # cs) =
     (case match_number_dot (c # cs) of
        Some after \<Rightarrow> cur # split_number_dot [] after
      | None \<Rightarrow> split_number_dot (cur @ [c]) cs)"
  by pat_completeness auto
termination
proof (relation "measure (\<lambda>(cur, s). length s)")
  fix cur :: string and c :: char and cs after :: string
  assume m: "match_number_dot (c # cs) = Some after"
  have "length (dropWhile is_digit (c # cs)) \<le> length (c # cs)"
    by (rule length_dropWhile_le)
  with m have "length after < length (c # cs)"
    by (auto simp: match_number_dot_def split: list.splits if_splits)
  then show "((([]::string), after), (cur, c # cs)) \<in> measure (\<lambda>(cur, s). length s)"
    by simp
qed auto

definition completion_prompt :: "string \<Rightarrow> string option \<Rightarrow> string" where
  \<open>completion_prompt context currentLine =
     trim (join newline
       [[],
        indent 24 @ ''You are an intelligent and helpful Python coding assistant.'',
        [],
        indent 24 @ ''### Context'',
        indent 24 @ ''Here is the recent Python code context:'',
        indent 24 @ context,
        [],
        indent 24 @ ''### Current Line'',
        indent 24 @ ''The user is typing:'',
        indent 24 @ interpolate currentLine,
        [],
        indent 24 @ ''### Objective'',
        indent 24 @ ''Predict the next line(s) of valid Python code the user is likely to write. Your suggestions should be clean, executable, and contextually relevant.'',
        [],
        indent 24 @ ''### Response Format'',
        indent 24 @ ''Return up to 3 suggestions, each numbered. Do not repeat the current line.'',
        [],
        indent 24 @ ''1.''])\<close>

text \<open>The \<^verbatim>\<open>forEach\<close> over the suggestions, pushing onto \<^verbatim>\<open>completionItems\<close>.\<close>

fun push_suggestions :: "string list \<Rightarrow> nat \<Rightarrow> completion_item list \<Rightarrow> completion_item list" where
  "push_suggestions [] index completionItems = completionItems"
| "push_suggestions (suggestion # rest) index completionItems =
     (let cleanSuggestion = trim suggestion in
      push_suggestions rest (Suc index)
        (if cleanSuggestion \<noteq> [] then
           completionItems @
             [\<lparr>label = cleanSuggestion,
               kind = CompletionItemKind_Text,
               sortText = Some (padStart 5 (CHR ''0'') (decimal index)),
               insertText = Some cleanSuggestion,
               detail = None,
               documentation = None\<rparr>]
         else completionItems))"

definition parse_completion :: "string \<Rightarrow> completion_item list" where
  "parse_completion completionText =
     (let suggestions = filter (\<lambda>s. length (trim s) > 0) (split_number_dot [] completionText) in
      if length suggestions = 0 \<and> length (trim completionText) > 0 then
        [\<lparr>label = trim completionText,
          kind = CompletionItemKind_Text,
          sortText = Some ''00000'',
          insertText = Some (trim completionText),
          detail = None,
          documentation = None\<rparr>]
      else push_suggestions suggestions 0 [])"

text \<open>
  The completion parser as the specification words it, to compare with the code: the usable
  segments are the pieces of the split that are not empty or white space only; the
  candidate for a text at list position \<open>i\<close> is a plain-text item with that text as label
  and insertion text and with \<^verbatim>\<open>String(i).padStart(5, '0')\<close> as sort key; the parser gives
  one candidate per usable segment, in order, and, when there is no usable segment, one
  candidate holding the whole trimmed text if that is not empty.
\<close>

definition usable_segments :: "string \<Rightarrow> string list" where
  "usable_segments t = filter (\<lambda>s. trim s \<noteq> []) (split_number_dot [] t)"

definition candidate :: "string \<Rightarrow> nat \<Rightarrow> completion_item" where
  "candidate s i =
     \<lparr>label = s,
      kind = CompletionItemKind_Text,
      sortText = Some (padStart 5 (CHR ''0'') (decimal i)),
      insertText = Some s,
      detail = None,
      documentation = None\<rparr>"

definition completion_candidates_spec :: "string \<Rightarrow> completion_item list" where
  "completion_candidates_spec t =
     (if usable_segments t = [] then (if trim t \<noteq> [] then [candidate (trim t) 0] else [])
      else map (\<lambda>(i, s). candidate (trim s) i) (enumerate 0 (usable_segments t)))"

text \<open>
  The two functions of the completion handler. In \<^verbatim>\<open>getAICompletion\<close> the call is awaited
  inside the \<^verbatim>\<open>try\<close>, so a rejected call, and the \<^verbatim>\<open>TypeError\<close> of \<^verbatim>\<open>split\<close> on a value
  that is not a string, both reach its \<^verbatim>\<open>catch\<close>, which returns the empty list. The
  \<^verbatim>\<open>catch\<close> of the handler is kept. Protocol positions are unsigned, so
  \<^verbatim>\<open>position.line - 5\<close> is the subtraction on naturals, which stops at 0 as the
  \<^verbatim>\<open>Math.max\<close> around it does. The current line is \<^verbatim>\<open>undefined\<close> when the line index is
  outside the document.
\<close>

definition getAICompletion ::
  "config \<Rightarrow> upstream \<Rightarrow> string \<Rightarrow> string option \<Rightarrow> completion_item list handled" where
  "getAICompletion cfg up context currentLine =
     (let prompt = completion_prompt context currentLine;
          r = callHuggingFaceAPI cfg up prompt 150
      in \<lparr>invoked = [(prompt, 150)],
          requests = sent_list r,
          outcome =
            (case settled r of
               Inl error \<Rightarrow> Returned []
             | Inr (JStr completionText) \<Rightarrow> Returned (parse_completion completionText)
             | Inr _ \<Rightarrow> Returned [])\<rparr>)"

definition onCompletion ::
  "config \<Rightarrow> upstream \<Rightarrow> (string \<rightharpoonup> string) \<Rightarrow> text_document_position
     \<Rightarrow> completion_item list handled" where
  "onCompletion cfg up documents textDocumentPosition =
     (case documents (uri textDocumentPosition) of
        None \<Rightarrow> \<lparr>invoked = [], requests = [], outcome = Returned []\<rparr>
      | Some text \<Rightarrow>
          let pos = position textDocumentPosition;
              lines = split_on (CHR 0x0A) text;
              currentLine = at_index lines (line pos);
              startLine = max 0 (line pos - 5);
              contextLines = slice lines startLine (line pos + 1);
              context = join newline contextLines;
              h = getAICompletion cfg up context currentLine
          in (case outcome h of
                Returned completions \<Rightarrow> h
              | Thrown error \<Rightarrow> h\<lparr>outcome := Returned []\<rparr>))"


subsection \<open>Completion resolve\<close>

definition resolve_prompt :: "string \<Rightarrow> string" where
  \<open>resolve_prompt itemLabel =
     trim (join newline
       [[],
        indent 24 @ ''You are a Python documentation assistant.'',
        indent 24,
        indent 24 @ ''### Task'',
        indent 24 @ ''Write a short but informative docstring for the following code or expression. Use a style consistent with Python's built-in documentation.'',
        indent 24,
        indent 24 @ ''### Code'',
        indent 24 @ ''"'' @ itemLabel @ ''"'',
        indent 24,
        indent 24 @ ''### Response Format'',
        indent 24 @ ''<summary line>'' @ newline @ ''<detailed explanation, if applicable>'',
        indent 24])\<close>

text \<open>The statements between the call and \<^verbatim>\<open>return item\<close>: \<^verbatim>\<open>a || b\<close> on strings is
  \<^verbatim>\<open>b\<close> when \<^verbatim>\<open>a\<close> is empty.\<close>

definition parse_resolve :: "completion_item \<Rightarrow> string \<Rightarrow> completion_item" where
  "parse_resolve item docText =
     (case split_on (CHR 0x0A) docText of
        [] \<Rightarrow> item
      | first # rest \<Rightarrow>
          item\<lparr>detail := Some (trim first),
               documentation :=
                 Some (if trim (join newline rest) \<noteq> [] then trim (join newline rest)
                       else trim first)\<rparr>)"

definition onCompletionResolve ::
  "config \<Rightarrow> upstream \<Rightarrow> completion_item \<Rightarrow> completion_item handled" where
  "onCompletionResolve cfg up item =
     (let prompt = resolve_prompt (label item);
          r = callHuggingFaceAPI cfg up prompt 100
      in \<lparr>invoked = [(prompt, 100)],
          requests = sent_list r,
          outcome =
            (case settled r of
               Inl error \<Rightarrow> Returned item
             | Inr (JStr docText) \<Rightarrow> Returned (parse_resolve item docText)
             | Inr _ \<Rightarrow> Returned item)\<rparr>)"

subsection \<open>Signature help\<close>

record parameter_information =
  param_label :: string
  param_documentation :: string

record signature_information =
  sig_label :: string
  sig_documentation :: string
  parameters :: "parameter_information list"

record signature_help =
  signatures :: "signature_information list"
  activeSignature :: nat
  activeParameter :: nat

text \<open>The loop that reads the function name leftwards from the parenthesis; the class is
  \<^verbatim>\<open>/[\w\._]/\<close>. The counter is \<^verbatim>\<open>i + 1\<close>.\<close>

definition is_name_char :: "char \<Rightarrow> bool" where
  "is_name_char c = (is_w c \<or> c = CHR ''.'' \<or> c = CHR ''_'')"

fun read_name :: "string \<Rightarrow> nat \<Rightarrow> string \<Rightarrow> string" where
  "read_name currentLine 0 functionName = functionName"
| "read_name currentLine (Suc i) functionName =
     (if is_name_char (currentLine ! i)
      then read_name currentLine i (currentLine ! i # functionName)
      else functionName)"

text \<open>
  \<^verbatim>\<open>signature.match(/\((.*?)\)/)\<close>, giving the group: from the leftmost opening parenthesis
  after which a closing one comes before any line terminator, the characters up to the
  first closing parenthesis.
\<close>

fun upto_close :: "string \<Rightarrow> string option" where
  "upto_close [] = None"
| "upto_close (c # cs) =
     (if c = CHR '')'' then Some []
      else if is_line_terminator c then None
      else map_option ((#) c) (upto_close cs))"

fun match_parens :: "string \<Rightarrow> string option" where
  "match_parens [] = None"
| "match_parens (c # cs) =
     (if c = CHR ''('' then
        (case upto_close cs of Some inner \<Rightarrow> Some inner | None \<Rightarrow> match_parens cs)
      else match_parens cs)"

fun push_params :: "string list \<Rightarrow> nat \<Rightarrow> parameter_information list" where
  "push_params [] index = []"
| "push_params (param # rest) index =
     \<lparr>param_label = trim param,
      param_documentation = ''Parameter '' @ decimal (index + 1)\<rparr>
       # push_params rest (Suc index)"

definition parse_signature :: "string \<Rightarrow> string \<Rightarrow> nat \<Rightarrow> signature_help" where
  "parse_signature signatureText currentLine cursor =
     (let signature = trim signatureText;
          parameterList =
            (case match_parens signature of
               None \<Rightarrow> []
             | Some inner \<Rightarrow>
                 if inner \<noteq> [] then push_params (split_on (CHR '','') inner) 0 else [])
      in \<lparr>signatures =
            [\<lparr>sig_label = signature,
              sig_documentation = ''No documentation available.'',
              parameters = parameterList\<rparr>],
          activeSignature = 0,
          activeParameter = getCurrentParameterIndex currentLine cursor\<rparr>)"

definition signature_prompt :: "string \<Rightarrow> string" where
  \<open>signature_prompt functionName =
     trim (join newline
       [[],
        indent 24 @ ''You are a Python API assistant.'',
        indent 24,
        indent 24 @ ''### Task'',
        indent 24 @ ''Provide the function signature (name and parameters) for the following Python function.'',
        indent 24,
        indent 24 @ ''### Function'',
        indent 24 @ ''"'' @ functionName @ ''"'',
        indent 24,
        indent 24 @ ''### Response Format'',
        indent 24 @ ''<function_signature>'',
        indent 24])\<close>

text \<open>Reading \<^verbatim>\<open>currentLine.substring\<close> on a line that is \<^verbatim>\<open>undefined\<close> throws a
  \<^verbatim>\<open>TypeError\<close>, before the \<^verbatim>\<open>try\<close> block is entered.\<close>

definition onSignatureHelp ::
  "config \<Rightarrow> upstream \<Rightarrow> (string \<rightharpoonup> string) \<Rightarrow> text_document_position
     \<Rightarrow> signature_help option handled" where
  "onSignatureHelp cfg up documents params =
     (case documents (uri params) of
        None \<Rightarrow> \<lparr>invoked = [], requests = [], outcome = Returned None\<rparr>
      | Some text \<Rightarrow>
          let pos = position params;
              lines = split_on (CHR 0x0A) text
          in (case at_index lines (line pos) of
                None \<Rightarrow> \<lparr>invoked = [], requests = [], outcome = Thrown TypeError\<rparr>
              | Some currentLine \<Rightarrow>
                  (case lastIndexOf (substring currentLine 0 (character pos)) (CHR ''('') of
                     None \<Rightarrow> \<lparr>invoked = [], requests = [], outcome = Returned None\<rparr>
                   | Some functionCallStart \<Rightarrow>
                       let functionName = read_name currentLine functionCallStart [];
                           prompt = signature_prompt functionName;
                           r = callHuggingFaceAPI cfg up prompt 100
                       in \<lparr>invoked = [(prompt, 100)],
                           requests = sent_list r,
                           outcome =
                             (case settled r of
                                Inl error \<Rightarrow> Returned None
                              | Inr (JStr signatureText) \<Rightarrow>
                                  Returned (Some (parse_signature signatureText currentLine
                                                    (character pos)))
                              | Inr _ \<Rightarrow> Returned None)\<rparr>)))"

subsection \<open>Hover\<close>

record markup_content =
  markup_kind :: string
  markup_value :: string

record hover =
  contents :: markup_content

definition hover_prompt :: "string \<Rightarrow> string \<Rightarrow> string" where
  \<open>hover_prompt word currentLine =
     trim (join newline
       [[],
        indent 20 @ ''You are a helpful AI assistant specialized in Python programming.'',
        indent 20,
        indent 20 @ ''### Task'',
        indent 20 @ ''Explain what the following Python token or function does in one or two concise sentences. Assume the user is hovering over it in their IDE.'',
        indent 20,
        indent 20 @ ''### Code'',
        indent 20 @ ''"'' @ word @ ''"'',
        indent 20,
        indent 20 @ ''### Context'',
        indent 20 @ ''"'' @ currentLine @ ''"'',
        indent 20,
        indent 20 @ ''### Response Format'',
        indent 20 @ ''Respond with a brief, technical explanation formatted in Markdown.'',
        indent 20])\<close>

text \<open>The value returned inside the \<^verbatim>\<open>try\<close>: the trimmed text, or the fixed sentence
  naming the word between apostrophes when the trimmed text is empty.\<close>

definition no_information :: "string \<Rightarrow> string" where
  "no_information word = ''No information available for '' @ [CHR 0x27] @ word @ [CHR 0x27]"

definition hover_contents :: "string \<Rightarrow> string \<Rightarrow> hover" where
  "hover_contents hoverText word =
     \<lparr>contents =
        \<lparr>markup_kind = ''markdown'',
         markup_value =
           (if trim hoverText \<noteq> [] then trim hoverText else no_information word)\<rparr>\<rparr>"

definition onHover ::
  "config \<Rightarrow> upstream \<Rightarrow> (string \<rightharpoonup> string) \<Rightarrow> text_document_position
     \<Rightarrow> hover option handled" where
  "onHover cfg up documents params =
     (case documents (uri params) of
        None \<Rightarrow> \<lparr>invoked = [], requests = [], outcome = Returned None\<rparr>
      | Some text \<Rightarrow>
          let pos = position params;
              lines = split_on (CHR 0x0A) text
          in if line pos \<ge> length lines then
               \<lparr>invoked = [], requests = [], outcome = Returned None\<rparr>
             else
               let currentLine = lines ! line pos
               in if character pos \<ge> length currentLine then
                    \<lparr>invoked = [], requests = [], outcome = Returned None\<rparr>
                  else
                    (case getWordRangeAtPosition currentLine (int (character pos)) of
                       None \<Rightarrow> \<lparr>invoked = [], requests = [], outcome = Returned None\<rparr>
                     | Some wordRange \<Rightarrow>
                         let word = substring currentLine (start wordRange) (end' wordRange)
                         in if word = [] \<or> length (trim word) = 0 then
                              \<lparr>invoked = [], requests = [], outcome = Returned None\<rparr>
                            else
                              let prompt = hover_prompt word currentLine;
                                  r = callHuggingFaceAPI cfg up prompt 100
                              in \<lparr>invoked = [(prompt, 100)],
                                  requests = sent_list r,
                                  outcome =
                                    (case settled r of
                                       Inl error \<Rightarrow> Returned None
                                     | Inr (JStr hoverText) \<Rightarrow>
                                         Returned (Some (hover_contents hoverText word))
                                     | Inr _ \<Rightarrow> Returned None)\<rparr>))"




section \<open>Example inputs\<close>

text \<open>A configuration with all three variables set, a candidate as the completion handler
  makes it, and a store of open documents with one document of one line.\<close>

definition example_config :: config where
  "example_config =
     \<lparr>HUGGINGFACE_API_URL = Some ''api-inference.huggingface.co'',
      HUGGINGFACE_API_PATH = Some ''/models/bigcode/starcoder'',
      HUGGINGFACE_API_KEY = Some ''hf_key''\<rparr>"

definition no_key_config :: config where
  "no_key_config =
     \<lparr>HUGGINGFACE_API_URL = Some ''api-inference.huggingface.co'',
      HUGGINGFACE_API_PATH = Some ''/models/bigcode/starcoder'',
      HUGGINGFACE_API_KEY = None\<rparr>"

definition example_item :: completion_item where
  "example_item = candidate ''x = 1'' 0"

definition example_documents :: "string \<rightharpoonup> string" where
  "example_documents = [''file:///a.py'' \<mapsto> ''print(x)'']"

text \<open>Two networks that take longer than five seconds: one whose reply trickles in, after a
  slow connection and two periods of three seconds, and one whose reply comes after the
  socket was inactive for seven seconds.\<close>

definition slow_upstream :: upstream where
  "slow_upstream =
     \<lparr>connect_ms = 2500, idle_ms = [3000, 3000],
      final = Response 200 (Parsed (JObj [(''generated_text'', JStr ''x = 1'')]))\<rparr>"

definition stalled_upstream :: upstream where
  "stalled_upstream =
     \<lparr>connect_ms = 80, idle_ms = [200, 7000],
      final = Response 200 (Parsed (JObj [(''generated_text'', JStr ''x = 1'')]))\<rparr>"

definition at_position :: "nat \<Rightarrow> nat \<Rightarrow> text_document_position" where
  "at_position ln_no col = \<lparr>uri = ''file:///a.py'', position = \<lparr>line = ln_no, character = col\<rparr>\<rparr>"

section \<open>Properties of the text-position utilities\<close>

subsection \<open>The parameter index\<close>

lemma lastIndexOf_None: "lastIndexOf s c = None \<longleftrightarrow> c \<notin> set s"
  by (induction s) (auto split: option.splits)

lemma getCurrentParameterIndex_no_paren:
  "CHR ''('' \<notin> set (take cursor l) \<Longrightarrow> getCurrentParameterIndex l cursor = 0"
  using lastIndexOf_None [of "take cursor l" "CHR ''(''"]
  by (simp add: getCurrentParameterIndex_def substring_def Let_def)

text \<open>
  Claim C1. The claim asks for the last unmatched open parenthesis left of the cursor and
  the commas at depth 0 after it, so that \<^verbatim>\<open>foo(a, bar(1,2), \<close> with the cursor at its
  end (offset 17) gives 2. The code starts from the last open parenthesis, matched or not:
  on that line it starts inside \<^verbatim>\<open>bar(\<close>, counts the comma between 1 and 2, goes to
  level -1 at the closing parenthesis and counts nothing after it. It returns 1, where the
  function written from the specification's words returns 2. For the same reason the
  line \<^verbatim>\<open>foo(a, b), c\<close>, where every parenthesis left of the cursor is matched, gives 1
  and not 0.
\<close>

theorem getCurrentParameterIndex_nested_call:
  "getCurrentParameterIndex ''foo(a, bar(1,2), '' 17 = 1
   \<and> ParameterIndexAt_spec ''foo(a, bar(1,2), '' 17 = 2
   \<and> getCurrentParameterIndex ''foo(a, b), c'' 12 = 1
   \<and> ParameterIndexAt_spec ''foo(a, b), c'' 12 = 0"
  by (simp add: getCurrentParameterIndex_def ParameterIndexAt_spec_def substring_def)

subsection \<open>The word range\<close>

lemma scan_start_le: "scan_start l n \<le> n"
  by (induction n) auto

lemma scan_start_inside:
  "scan_start l n \<le> i \<Longrightarrow> i < n \<Longrightarrow> is_identifier_char (l ! i)"
proof (induction n)
  case 0
  then show ?case by simp
next
  case (Suc n)
  then show ?case
    by (cases "i = n") (auto split: if_splits)
qed

lemma scan_start_maximal:
  "scan_start l n = 0 \<or> \<not> is_identifier_char (l ! (scan_start l n - 1))"
  by (induction n) auto

lemma scan_end_ge: "e \<le> scan_end l e"
proof (induction l e rule: scan_end.induct)
  case (1 l e)
  show ?case
  proof (cases "e < length l \<and> is_identifier_char (l ! e)")
    case True
    with 1 have "Suc e \<le> scan_end l (Suc e)" by simp
    moreover from True have "scan_end l e = scan_end l (Suc e)"
      by (subst scan_end.simps) simp
    ultimately show ?thesis by simp
  next
    case False
    then have "scan_end l e = e" by (subst scan_end.simps) auto
    then show ?thesis by simp
  qed
qed

lemma scan_end_le_length: "e \<le> length l \<Longrightarrow> scan_end l e \<le> length l"
proof (induction l e rule: scan_end.induct)
  case (1 l e)
  show ?case
  proof (cases "e < length l \<and> is_identifier_char (l ! e)")
    case True
    with 1 have "scan_end l (Suc e) \<le> length l" by simp
    moreover from True have "scan_end l e = scan_end l (Suc e)"
      by (subst scan_end.simps) simp
    ultimately show ?thesis by simp
  next
    case False
    then have "scan_end l e = e" by (subst scan_end.simps) auto
    with 1 show ?thesis by simp
  qed
qed

lemma scan_end_inside:
  "e \<le> i \<Longrightarrow> i < scan_end l e \<Longrightarrow> is_identifier_char (l ! i)"
proof (induction l e rule: scan_end.induct)
  case (1 l e)
  show ?case
  proof (cases "e < length l \<and> is_identifier_char (l ! e)")
    case True
    then have eq: "scan_end l e = scan_end l (Suc e)"
      by (subst scan_end.simps) simp
    show ?thesis
    proof (cases "i = e")
      case True
      with \<open>e < length l \<and> is_identifier_char (l ! e)\<close> show ?thesis by simp
    next
      case False
      with "1.prems" eq True "1.IH" show ?thesis by simp
    qed
  next
    case False
    then have "scan_end l e = e" by (subst scan_end.simps) auto
    with "1.prems" show ?thesis by simp
  qed
qed

lemma scan_end_maximal:
  "e \<le> length l \<Longrightarrow>
   scan_end l e = length l \<or> \<not> is_identifier_char (l ! scan_end l e)"
proof (induction l e rule: scan_end.induct)
  case (1 l e)
  show ?case
  proof (cases "e < length l \<and> is_identifier_char (l ! e)")
    case True
    then have eq: "scan_end l e = scan_end l (Suc e)"
      by (subst scan_end.simps) simp
    from True "1.IH" show ?thesis unfolding eq by simp
  next
    case False
    then have "scan_end l e = e" by (subst scan_end.simps) auto
    with False "1.prems" show ?thesis by auto
  qed
qed

text \<open>
  Claim C9. \<^verbatim>\<open>getWordRangeAtPosition\<close> returns a range exactly when the position is inside
  the line and the character there is in the identifier class; otherwise it returns
  nothing. The range it returns contains the position, lies inside the line, holds only
  identifier characters, and cannot be extended on either side: it starts at the beginning
  of the line or after a character outside the class, and ends at the end of the line or
  before a character outside the class. The test for an empty range never fires.
\<close>

theorem getWordRangeAtPosition_contract:
  "if 0 \<le> p \<and> p < int (length l) \<and> is_identifier_char (l ! nat p)
   then \<exists>r. getWordRangeAtPosition l p = Some r
          \<and> int (start r) \<le> p \<and> p < int (end' r) \<and> end' r \<le> length l
          \<and> (\<forall>i. start r \<le> i \<and> i < end' r \<longrightarrow> is_identifier_char (l ! i))
          \<and> (start r = 0 \<or> \<not> is_identifier_char (l ! (start r - 1)))
          \<and> (end' r = length l \<or> \<not> is_identifier_char (l ! end' r))
   else getWordRangeAtPosition l p = None"
proof (cases "0 \<le> p \<and> p < int (length l) \<and> is_identifier_char (l ! nat p)")
  case False
  have "getWordRangeAtPosition l p = None"
    using False by (auto simp: getWordRangeAtPosition_def)
  then show ?thesis unfolding if_not_P [OF False] .
next
  case True
  define s where "s = scan_start l (nat p)"
  define e where "e = scan_end l (nat p + 1)"
  from True have inb: "nat p + 1 \<le> length l" by linarith
  have s_le: "s \<le> nat p" unfolding s_def by (rule scan_start_le)
  have e_ge: "nat p + 1 \<le> e" unfolding e_def by (rule scan_end_ge)
  have e_le: "e \<le> length l" unfolding e_def using inb by (rule scan_end_le_length)
  have inside: "is_identifier_char (l ! i)" if "s \<le> i" "i < e" for i
  proof (cases "i < nat p")
    case True
    with that show ?thesis unfolding s_def by (blast intro: scan_start_inside)
  next
    case False
    show ?thesis
    proof (cases "i = nat p")
      case True
      with \<open>0 \<le> p \<and> p < int (length l) \<and> is_identifier_char (l ! nat p)\<close>
      show ?thesis by simp
    next
      case False
      with \<open>\<not> i < nat p\<close> have "nat p + 1 \<le> i" by simp
      with that show ?thesis unfolding e_def by (blast intro: scan_end_inside)
    qed
  qed
  have smax: "s = 0 \<or> \<not> is_identifier_char (l ! (s - 1))"
    unfolding s_def by (rule scan_start_maximal)
  have emax: "e = length l \<or> \<not> is_identifier_char (l ! e)"
    unfolding e_def using inb by (rule scan_end_maximal)
  have guard: "\<not> (l = [] \<or> p < 0 \<or> p \<ge> int (length l))"
    using True by auto
  have nonempty: "\<not> (s = e \<or> e \<le> s)"
    using s_le e_ge by simp
  have res: "getWordRangeAtPosition l p = Some \<lparr>start = s, end' = e\<rparr>"
    unfolding getWordRangeAtPosition_def Let_def s_def [symmetric] e_def [symmetric]
    using guard nonempty True by simp
  have "\<exists>r. getWordRangeAtPosition l p = Some r
          \<and> int (start r) \<le> p \<and> p < int (end' r) \<and> end' r \<le> length l
          \<and> (\<forall>i. start r \<le> i \<and> i < end' r \<longrightarrow> is_identifier_char (l ! i))
          \<and> (start r = 0 \<or> \<not> is_identifier_char (l ! (start r - 1)))
          \<and> (end' r = length l \<or> \<not> is_identifier_char (l ! end' r))"
  proof (intro exI conjI)
    show "getWordRangeAtPosition l p = Some \<lparr>start = s, end' = e\<rparr>" by (rule res)
    show "int (start \<lparr>start = s, end' = e\<rparr>) \<le> p" using s_le True by (simp, linarith)
    show "p < int (end' \<lparr>start = s, end' = e\<rparr>)" using e_ge by simp
    show "end' \<lparr>start = s, end' = e\<rparr> \<le> length l" using e_le by simp
    show "\<forall>i. start \<lparr>start = s, end' = e\<rparr> \<le> i \<and> i < end' \<lparr>start = s, end' = e\<rparr>
            \<longrightarrow> is_identifier_char (l ! i)"
      using inside by simp
    show "start \<lparr>start = s, end' = e\<rparr> = 0
            \<or> \<not> is_identifier_char (l ! (start \<lparr>start = s, end' = e\<rparr> - 1))"
      using smax by simp
    show "end' \<lparr>start = s, end' = e\<rparr> = length l
            \<or> \<not> is_identifier_char (l ! end' \<lparr>start = s, end' = e\<rparr>)"
      using emax by simp
  qed
  then show ?thesis unfolding if_P [OF True] .
qed

text \<open>On the line \<^verbatim>\<open>a.b c\<close> at offset 1, the dot, the hypotheses hold.\<close>

theorem getWordRangeAtPosition_contract_witness:
  "\<exists>r. getWordRangeAtPosition ''a.b c'' 1 = Some r
      \<and> int (start r) \<le> 1 \<and> 1 < int (end' r) \<and> end' r \<le> length ''a.b c''
      \<and> (\<forall>i. start r \<le> i \<and> i < end' r \<longrightarrow> is_identifier_char (''a.b c'' ! i))
      \<and> (start r = 0 \<or> \<not> is_identifier_char (''a.b c'' ! (start r - 1)))
      \<and> (end' r = length ''a.b c'' \<or> \<not> is_identifier_char (''a.b c'' ! end' r))"
proof -
  have h: "0 \<le> (1::int) \<and> 1 < int (length ''a.b c'') \<and> is_identifier_char (''a.b c'' ! nat 1)"
    by (simp add: is_identifier_char_def is_w_def is_digit_def)
  from getWordRangeAtPosition_contract [of 1 "''a.b c''"] show ?thesis
    unfolding if_P [OF h] .
qed


section \<open>Properties of the response parsers\<close>

subsection \<open>Completion\<close>

lemma decimal_length: "0 < k \<Longrightarrow> n < 10 ^ k \<Longrightarrow> length (decimal n) \<le> k"
proof (induction k arbitrary: n)
  case 0
  then show ?case by simp
next
  case (Suc k)
  show ?case
  proof (cases "n < 10")
    case True
    then show ?thesis by (subst decimal.simps) simp
  next
    case False
    with Suc.prems have k: "0 < k" by (cases k) auto
    from Suc.prems have "n div 10 < 10 ^ k" by (simp add: less_mult_imp_div_less mult.commute)
    with k Suc.IH have "length (decimal (n div 10)) \<le> k" by blast
    with False show ?thesis by (subst decimal.simps) simp
  qed
qed

lemma decimal_0: "decimal 0 = ''0''"
  by (subst decimal.simps) (simp add: digit_char_def)

lemma decimal_1: "decimal (Suc 0) = ''1''"
  by (subst decimal.simps) (simp add: digit_char_def)

lemma sort_key_0: "padStart 5 (CHR ''0'') (decimal 0) = ''00000''"
  by (simp add: decimal_0 padStart_def eval_nat_numeral)

lemma sort_key_1: "padStart 5 (CHR ''0'') (decimal (Suc 0)) = ''00001''"
  by (simp only: decimal_1) (simp add: padStart_def eval_nat_numeral)

lemma sort_key_length: "i < 100000 \<Longrightarrow> length (padStart 5 c (decimal i)) = 5"
  using decimal_length [of 5 i] by (simp add: padStart_def)

lemma push_suggestions_usable:
  "\<forall>s \<in> set xs. trim s \<noteq> [] \<Longrightarrow>
   push_suggestions xs i acc = acc @ map (\<lambda>(j, s). candidate (trim s) j) (enumerate i xs)"
  by (induction xs arbitrary: i acc) (simp_all add: candidate_def Let_def)

lemma parse_completion_spec: "parse_completion t = completion_candidates_spec t"
proof -
  have u: "\<forall>s \<in> set (usable_segments t). trim s \<noteq> []"
    by (simp add: usable_segments_def)
  show ?thesis
    using push_suggestions_usable [OF u, of 0 "[]"]
    by (simp add: parse_completion_def completion_candidates_spec_def Let_def sort_key_0
        usable_segments_def [symmetric] candidate_def)
qed

lemma parse_completion_numbered:
  "parse_completion (''1. x = 1'' @ newline @ ''2. y = 2'')
     = [candidate ''x = 1'' 0, candidate ''y = 2'' 1]"
  by (simp add: parse_completion_def Let_def match_number_dot_def is_digit_def trim_def
      is_space_def newline_def candidate_def)

lemma parse_completion_unnumbered:
  "parse_completion ''return x + y'' = [candidate ''return x + y'' 0]"
  by (simp add: parse_completion_def Let_def match_number_dot_def is_digit_def trim_def
      is_space_def candidate_def)

text \<open>
  Claim C7, as stated, fails on a generated text of white space only: the split has no
  usable segment and the raw text is not empty, yet the code emits no candidate, because
  its test is on the trimmed text.
\<close>

theorem parse_completion_blank_text:
  "usable_segments '' '' = [] \<and> '' '' \<noteq> [] \<and> parse_completion '' '' = []"
  by (simp add: usable_segments_def parse_completion_def Let_def match_number_dot_def
      is_digit_def trim_def is_space_def)

text \<open>
  Claim C7, amended. The code computes the parser written from the specification's words
  with the fallback guarded by the trimmed text: one candidate per usable segment, in
  order, labelled with the trimmed segment and keyed with its list position in decimal,
  padded with zeros to five characters (exactly five for positions below 100000); with
  no usable segment, one candidate with the whole trimmed text and key \<^verbatim>\<open>00000\<close> when the
  trimmed text is not empty, and no candidate otherwise. The two examples of the claim hold.
\<close>

theorem parse_completion_candidates:
  "parse_completion t = completion_candidates_spec t
   \<and> (\<forall>i < 100000. length (padStart 5 (CHR ''0'') (decimal i)) = 5)
   \<and> map label (parse_completion (''1. x = 1'' @ newline @ ''2. y = 2'')) = [''x = 1'', ''y = 2'']
   \<and> map sortText (parse_completion (''1. x = 1'' @ newline @ ''2. y = 2''))
        = [Some ''00000'', Some ''00001'']
   \<and> parse_completion ''return x + y''
        = [\<lparr>label = ''return x + y'', kind = CompletionItemKind_Text,
            sortText = Some ''00000'', insertText = Some ''return x + y'',
            detail = None, documentation = None\<rparr>]"
proof (intro conjI)
  show "parse_completion t = completion_candidates_spec t"
    by (rule parse_completion_spec)
  show "\<forall>i < 100000. length (padStart 5 (CHR ''0'') (decimal i)) = 5"
    by (simp add: sort_key_length)
  show "map label (parse_completion (''1. x = 1'' @ newline @ ''2. y = 2'')) = [''x = 1'', ''y = 2'']"
    unfolding parse_completion_numbered by (simp add: candidate_def)
  show "map sortText (parse_completion (''1. x = 1'' @ newline @ ''2. y = 2''))
          = [Some ''00000'', Some ''00001'']"
    unfolding parse_completion_numbered by (simp add: candidate_def sort_key_0 sort_key_1)
  show "parse_completion ''return x + y''
          = [\<lparr>label = ''return x + y'', kind = CompletionItemKind_Text,
              sortText = Some ''00000'', insertText = Some ''return x + y'',
              detail = None, documentation = None\<rparr>]"
    unfolding parse_completion_unnumbered by (simp add: candidate_def sort_key_0)
qed

text \<open>The bound on the list position holds at position 7.\<close>

theorem parse_completion_candidates_witness:
  "(7::nat) < 100000 \<and> length (padStart 5 (CHR ''0'') (decimal 7)) = 5"
proof -
  have h: "(7::nat) < 100000" by simp
  from parse_completion_candidates [of "[]"]
  have "\<forall>i < 100000. length (padStart 5 (CHR ''0'') (decimal i)) = 5" by blast
  with h show ?thesis by blast
qed


section \<open>Properties of the inference client\<close>

lemma read_reply_spec:
  "(case read_reply (Parsed parsedData) of Inl e \<Rightarrow> JStr [] | Inr v \<Rightarrow> v) = reply_text_spec parsedData"
proof (cases parsedData)
  case (JArr xs)
  show ?thesis
  proof (cases xs)
    case Nil
    with JArr show ?thesis by (simp add: read_reply_def reply_text_spec_def exposed_text_def)
  next
    case (Cons first rest)
    with JArr show ?thesis
      by (cases first) (auto simp: read_reply_def reply_text_spec_def exposed_text_def split: option.splits)
  qed
qed (auto simp: read_reply_def reply_text_spec_def exposed_text_def split: option.splits)

lemma on_end_spec:
  "on_end statusCode b =
     (if statusCode = 200 then (case b of Unparseable \<Rightarrow> JStr [] | Parsed parsedData \<Rightarrow> reply_text_spec parsedData)
      else JStr [])"
proof (cases b)
  case Unparseable
  then show ?thesis by (simp add: on_end_def read_reply_def)
next
  case (Parsed parsedData)
  then show ?thesis using read_reply_spec [of parsedData] by (simp add: on_end_def)
qed

lemma reply_text_spec_string:
  "exposed_text parsedData = Some (JStr s) \<Longrightarrow> reply_text_spec parsedData = JStr s"
  by (simp add: reply_text_spec_def)

lemma timer_fires_iff: "timer_fires ms up \<longleftrightarrow> (\<exists>idle \<in> set (idle_ms up). ms \<le> idle)"
  by (simp add: timer_fires_def list_ex_iff)

lemma settled_written:
  assumes "HUGGINGFACE_API_KEY cfg = Some key" and "key \<noteq> []" and "\<not> request_throws cfg key"
  shows "settled (callHuggingFaceAPI cfg up prompt maxTokens) =
           (if timer_fires 5000 up then Inl (Error ''Request timed out'')
            else case final up of
                   RequestError error \<Rightarrow> Inl error
                 | Silence \<Rightarrow> Inl (Error ''Request timed out'')
                 | Response statusCode b \<Rightarrow> Inr (on_end statusCode b))"
  using assms by (simp add: callHuggingFaceAPI_def Let_def)

lemma sent_written:
  assumes "HUGGINGFACE_API_KEY cfg = Some key" and "key \<noteq> []" and "\<not> request_throws cfg key"
  shows "\<exists>q. sent (callHuggingFaceAPI cfg up prompt maxTokens) = Some q
           \<and> timeout_ms q = 5000 \<and> inputs q = prompt \<and> max_new_tokens q = maxTokens"
  using assms by (simp add: callHuggingFaceAPI_def Let_def)

lemma settled_thrown:
  assumes "HUGGINGFACE_API_KEY cfg = Some key" and "key \<noteq> []" and "request_throws cfg key"
  shows "callHuggingFaceAPI cfg up prompt maxTokens = \<lparr>sent = None, settled = Inl TypeError\<rparr>"
  using assms by (simp add: callHuggingFaceAPI_def)

lemma line_feed_in_key_throws: "request_throws cfg (key @ [CHR 0x0A])"
  by (simp add: request_throws_def is_header_char_def)

lemma settled_response:
  assumes "HUGGINGFACE_API_KEY cfg = Some key" and "key \<noteq> []" and "\<not> request_throws cfg key"
    and "\<forall>idle \<in> set (idle_ms up). idle < 5000" and "final up = Response statusCode b"
  shows "settled (callHuggingFaceAPI cfg up prompt maxTokens) = Inr (on_end statusCode b)"
proof -
  from assms(4) have "\<not> timer_fires 5000 up" by (auto simp: timer_fires_iff)
  with settled_written [OF assms(1-3), of up prompt maxTokens] assms(5) show ?thesis by simp
qed

lemma example_config_key: "HUGGINGFACE_API_KEY example_config = Some ''hf_key''"
  by (simp add: example_config_def)

lemma example_config_accepted: "\<not> request_throws example_config ''hf_key''"
  by (simp add: request_throws_def example_config_def is_path_char_def is_header_char_def)

lemma settled_example:
  "settled (callHuggingFaceAPI example_config (at_once r) prompt maxTokens) =
     (case r of
        RequestError error \<Rightarrow> Inl error
      | Silence \<Rightarrow> Inl (Error ''Request timed out'')
      | Response statusCode b \<Rightarrow> Inr (on_end statusCode b))"
  using settled_written [OF example_config_key _ example_config_accepted, of "at_once r" prompt maxTokens]
  by (simp add: at_once_def timer_fires_def)

text \<open>
  Claim C5, as stated, fails on a reply with a success status other than 200: the body is an
  object exposing the generated text, the status 201 is a 2xx status, and the client
  resolves with the empty string.
\<close>

theorem callHuggingFaceAPI_status_201:
  "exposed_text (JObj [(''generated_text'', JStr ''x = 1'')]) = Some (JStr ''x = 1'')
   \<and> settled (callHuggingFaceAPI example_config
        (at_once (Response 201 (Parsed (JObj [(''generated_text'', JStr ''x = 1'')])))) [] 100)
       = Inr (JStr [])"
  by (simp add: exposed_text_def settled_example on_end_def)

text \<open>
  Claim C5, amended. The handler of the \<^verbatim>\<open>end\<close> event yields the text of the reply as the
  specification words it exactly when the status is 200 and the body parses; an
  unparseable body and every status other than 200 give the empty string. Whenever the
  request was written (a key is configured and the options are accepted) and the response
  ends before the inactivity timer fires, the promise is resolved with that value and never
  rejected. In particular a string under \<^verbatim>\<open>generated_text\<close>, in the object or in the first
  element of the array, is returned as it is.
\<close>

theorem callHuggingFaceAPI_response:
  assumes "HUGGINGFACE_API_KEY cfg = Some key" and "key \<noteq> []" and "\<not> request_throws cfg key"
    and "\<forall>idle \<in> set (idle_ms up). idle < 5000" and "final up = Response statusCode b"
  shows "on_end statusCode b =
           (if statusCode = 200
            then (case b of Unparseable \<Rightarrow> JStr []
                          | Parsed parsedData \<Rightarrow> reply_text_spec parsedData)
            else JStr [])
         \<and> settled (callHuggingFaceAPI cfg up prompt maxTokens) =
           Inr (if statusCode = 200
                then (case b of Unparseable \<Rightarrow> JStr []
                              | Parsed parsedData \<Rightarrow> reply_text_spec parsedData)
                else JStr [])
         \<and> (statusCode = 200 \<and> b = Parsed parsedData \<and> exposed_text parsedData = Some (JStr s)
              \<longrightarrow> settled (callHuggingFaceAPI cfg up prompt maxTokens) = Inr (JStr s))"
proof -
  have e: "on_end statusCode b =
           (if statusCode = 200
            then (case b of Unparseable \<Rightarrow> JStr []
                          | Parsed parsedData \<Rightarrow> reply_text_spec parsedData)
            else JStr [])"
    by (rule on_end_spec)
  have main: "settled (callHuggingFaceAPI cfg up prompt maxTokens) =
           Inr (if statusCode = 200
                then (case b of Unparseable \<Rightarrow> JStr []
                              | Parsed parsedData \<Rightarrow> reply_text_spec parsedData)
                else JStr [])"
    using settled_response [OF assms] e by simp
  have "settled (callHuggingFaceAPI cfg up prompt maxTokens) = Inr (JStr s)"
    if "statusCode = 200 \<and> b = Parsed parsedData \<and> exposed_text parsedData = Some (JStr s)"
    using that main by (simp add: reply_text_spec_string)
  with e main show ?thesis by blast
qed

text \<open>A key is configured in the example and its options are accepted; the reply
  \<^verbatim>\<open>[{"generated_text": "x = 1"}]\<close> with status 200 comes after 40 and 300 milliseconds
  of inactivity and exposes a string.\<close>

theorem callHuggingFaceAPI_response_witness:
  "settled (callHuggingFaceAPI example_config
      \<lparr>connect_ms = 120, idle_ms = [40, 300],
       final = Response 200 (Parsed (JArr [JObj [(''generated_text'', JStr ''x = 1'')]]))\<rparr> [] 100)
     = Inr (JStr ''x = 1'')"
proof -
  let ?parsed = "JArr [JObj [(''generated_text'', JStr ''x = 1'')]]"
  let ?up = "\<lparr>connect_ms = 120, idle_ms = [40, 300], final = Response 200 (Parsed ?parsed)\<rparr>"
  have n: "''hf_key'' \<noteq> []" by simp
  have i: "\<forall>idle \<in> set (idle_ms ?up). idle < 5000" by simp
  have f: "final ?up = Response 200 (Parsed ?parsed)" by simp
  have h: "(200::nat) = 200 \<and> Parsed ?parsed = Parsed ?parsed
           \<and> exposed_text ?parsed = Some (JStr ''x = 1'')"
    by (simp add: exposed_text_def)
  from callHuggingFaceAPI_response [OF example_config_key n example_config_accepted i f,
      where prompt = "[]" and maxTokens = 100 and parsedData = ?parsed and s = "''x = 1''"] h
  show ?thesis by blast
qed


section \<open>Properties of completion resolve\<close>

lemma split_acc_no_sep: "sep \<notin> set s \<Longrightarrow> split_acc sep cur s = [cur @ s]"
  by (induction s arbitrary: cur) auto

lemma split_acc_cons: "\<exists>first rest. split_acc sep cur s = first # rest"
  by (induction s arbitrary: cur) auto

lemma join_cons: "xs \<noteq> [] \<Longrightarrow> join sep (x # xs) = x @ sep @ join sep xs"
  by (cases xs) simp_all

lemma join_split_acc: "join [sep] (split_acc sep cur s) = cur @ s"
proof (induction s arbitrary: cur)
  case Nil
  then show ?case by simp
next
  case (Cons c cs)
  show ?case
  proof (cases "c = sep")
    case True
    from split_acc_cons obtain first rest where "split_acc sep [] cs = first # rest" by blast
    then have "split_acc sep [] cs \<noteq> []" by simp
    with True Cons.IH [of "[]"] show ?thesis by (simp add: join_cons)
  next
    case False
    with Cons.IH [of "cur @ [c]"] show ?thesis by simp
  qed
qed

lemma join_split_on: "join newline (split_on (CHR 0x0A) s) = s"
  using join_split_acc [of "CHR 0x0A" "[]" s] by (simp add: split_on_def newline_def)

lemma last_dropWhile: "dropWhile P xs \<noteq> [] \<Longrightarrow> last (dropWhile P xs) = last xs"
  by (induction xs) (auto split: if_splits)

lemma trim_inside:
  "\<exists>a b. s = a @ trim s @ b \<and> list_all is_space a \<and> list_all is_space b"
proof -
  let ?u = "dropWhile is_space s"
  have "s = takeWhile is_space s @ ?u" by simp
  moreover have "rev (rev ?u) =
      rev (dropWhile is_space (rev ?u)) @ rev (takeWhile is_space (rev ?u))"
    using rev_append [of "takeWhile is_space (rev ?u)" "dropWhile is_space (rev ?u)"]
    by (simp only: takeWhile_dropWhile_id)
  then have "?u = trim s @ rev (takeWhile is_space (rev ?u))"
    by (simp only: rev_rev_ident trim_def)
  ultimately have "s = takeWhile is_space s @ trim s @ rev (takeWhile is_space (rev ?u))"
    by simp
  moreover have "list_all is_space (takeWhile is_space s)"
    by (simp add: list_all_iff) (meson set_takeWhileD)
  moreover have "list_all is_space (rev (takeWhile is_space (rev ?u)))"
    by (simp add: list_all_iff) (meson set_takeWhileD)
  ultimately show ?thesis by blast
qed

lemma trim_ends:
  assumes "trim s \<noteq> []"
  shows "\<not> is_space (hd (trim s)) \<and> \<not> is_space (last (trim s))"
proof -
  let ?u = "dropWhile is_space s"
  let ?v = "dropWhile is_space (rev ?u)"
  from assms have v: "?v \<noteq> []" by (simp add: trim_def)
  have u: "?u \<noteq> []"
  proof
    assume e: "?u = []"
    have "?v = []" unfolding e by simp
    with v show False by simp
  qed
  have "last (trim s) = hd ?v" using v by (simp add: trim_def last_rev)
  moreover have "\<not> is_space (hd ?v)" using v by (rule hd_dropWhile)
  moreover have "hd (trim s) = last ?v" using v by (simp add: trim_def hd_rev)
  moreover have "last ?v = last (rev ?u)" using v by (rule last_dropWhile)
  moreover have "last (rev ?u) = hd ?u" using u by (simp add: last_rev)
  moreover have "\<not> is_space (hd ?u)" using u by (rule hd_dropWhile)
  ultimately show ?thesis by simp
qed

lemma parse_resolve_lines:
  "\<exists>first rest. split_on (CHR 0x0A) docText = first # rest
     \<and> join newline (first # rest) = docText
     \<and> parse_resolve item docText =
         item\<lparr>detail := Some (trim first),
              documentation :=
                Some (if trim (join newline rest) = [] then trim first
                      else trim (join newline rest))\<rparr>"
proof -
  from split_acc_cons obtain first rest where s: "split_on (CHR 0x0A) docText = first # rest"
    unfolding split_on_def by blast
  with join_split_on [of docText] have "join newline (first # rest) = docText" by simp
  with s show ?thesis by (auto simp: parse_resolve_def)
qed

lemma parse_resolve_never_blank:
  "detail (parse_resolve item docText) \<noteq> Some [] \<Longrightarrow>
   documentation (parse_resolve item docText) \<noteq> Some []"
proof -
  assume d: "detail (parse_resolve item docText) \<noteq> Some []"
  from parse_resolve_lines [of docText item] obtain first rest where
    eq: "parse_resolve item docText =
           item\<lparr>detail := Some (trim first),
                documentation :=
                  Some (if trim (join newline rest) = [] then trim first
                        else trim (join newline rest))\<rparr>"
    by blast
  have "detail (parse_resolve item docText) = Some (trim first)"
    by (subst eq) simp
  with d have "trim first \<noteq> []" by simp
  moreover have "documentation (parse_resolve item docText) =
      Some (if trim (join newline rest) = [] then trim first else trim (join newline rest))"
    by (subst eq) simp
  ultimately show ?thesis by simp
qed

lemma parse_resolve_one_line:
  "CHR 0x0A \<notin> set docText \<Longrightarrow>
   parse_resolve item docText = item\<lparr>detail := Some (trim docText), documentation := Some (trim docText)\<rparr>"
  by (simp add: parse_resolve_def split_on_def split_acc_no_sep trim_def)

lemma parse_resolve_two_lines:
  "parse_resolve item (''Adds two numbers.'' @ newline @ ''Returns sum.'')
     = item\<lparr>detail := Some ''Adds two numbers.'', documentation := Some ''Returns sum.''\<rparr>"
  by (simp add: parse_resolve_def split_on_def trim_def is_space_def newline_def)

lemma parse_resolve_spaced_lines:
  "parse_resolve item
      (''  Adds. '' @ newline @ newline @ '' Takes a '' @ newline @ ''and b.  '' @ newline)
     = item\<lparr>detail := Some ''Adds.'',
            documentation := Some (''Takes a '' @ newline @ ''and b.'')\<rparr>"
  by (simp add: parse_resolve_def split_on_def trim_def is_space_def newline_def)

lemma onCompletionResolve_text:
  "settled (callHuggingFaceAPI cfg up (resolve_prompt (label item)) 100) = Inr (JStr docText) \<Longrightarrow>
   outcome (onCompletionResolve cfg up item) = Returned (parse_resolve item docText)"
  by (simp add: onCompletionResolve_def Let_def)

lemma parse_resolve_empty:
  "parse_resolve item [] = item\<lparr>detail := Some [], documentation := Some []\<rparr>"
  by (simp add: parse_resolve_def split_on_def trim_def)

text \<open>
  Claim C8, as stated, fails where the remaining lines have white space around them. For
  the text of the lines \<^verbatim>\<open>Sum.\<close>, an empty line, \<^verbatim>\<open>Details.\<close> and an empty last line, the
  remaining lines joined are \<^verbatim>\<open>Details.\<close> between two line breaks, but the documentation
  is \<^verbatim>\<open>Details.\<close> alone. For \<^verbatim>\<open>Sum.\<close> followed by a line of two spaces, the remaining
  lines are not empty, yet the documentation falls back to \<^verbatim>\<open>Sum.\<close>.
\<close>

theorem parse_resolve_documentation_trimmed:
  "tl (split_on (CHR 0x0A) (''Sum.'' @ newline @ newline @ ''Details.'' @ newline))
     = [[], ''Details.'', []]
   \<and> join newline [[], ''Details.'', []] = newline @ ''Details.'' @ newline
   \<and> documentation (parse_resolve example_item
        (''Sum.'' @ newline @ newline @ ''Details.'' @ newline)) = Some ''Details.''
   \<and> tl (split_on (CHR 0x0A) (''Sum.'' @ newline @ ''  '')) = [''  '']
   \<and> documentation (parse_resolve example_item (''Sum.'' @ newline @ ''  '')) = Some ''Sum.''"
  by (simp add: parse_resolve_def split_on_def trim_def is_space_def newline_def)

text \<open>
  Claim C8, amended. The text is split at line breaks, which always gives a first line, and
  joining the lines with line breaks gives the text back. The detail becomes the trimmed
  first line; the documentation becomes the remaining lines joined with line breaks and
  then trimmed, or the trimmed first line when that trimmed join is empty (no remaining
  line, or blank ones only). So the documentation is not blank when the detail is not; a
  text of one line gives that line, trimmed, as both; the claim's two-line example gives
  its two lines, and a text with blank lines and spaces around its lines gives the lines
  without them. The handler returns the item so changed whenever the inference call
  gives a text.
\<close>

theorem parse_resolve_detail_documentation:
  "(\<exists>first rest. split_on (CHR 0x0A) docText = first # rest
      \<and> join newline (first # rest) = docText
      \<and> parse_resolve item docText =
          item\<lparr>detail := Some (trim first),
               documentation :=
                 Some (if trim (join newline rest) = [] then trim first
                       else trim (join newline rest))\<rparr>)
   \<and> (detail (parse_resolve item docText) \<noteq> Some []
        \<longrightarrow> documentation (parse_resolve item docText) \<noteq> Some [])
   \<and> (CHR 0x0A \<notin> set docText
        \<longrightarrow> parse_resolve item docText =
            item\<lparr>detail := Some (trim docText), documentation := Some (trim docText)\<rparr>)
   \<and> parse_resolve item (''Adds two numbers.'' @ newline @ ''Returns sum.'')
        = item\<lparr>detail := Some ''Adds two numbers.'', documentation := Some ''Returns sum.''\<rparr>
   \<and> parse_resolve item
        (''  Adds. '' @ newline @ newline @ '' Takes a '' @ newline @ ''and b.  '' @ newline)
        = item\<lparr>detail := Some ''Adds.'',
               documentation := Some (''Takes a '' @ newline @ ''and b.'')\<rparr>
   \<and> (settled (callHuggingFaceAPI cfg up (resolve_prompt (label item)) 100) = Inr (JStr docText)
        \<longrightarrow> outcome (onCompletionResolve cfg up item) = Returned (parse_resolve item docText))"
proof (intro conjI impI)
  show "\<exists>first rest. split_on (CHR 0x0A) docText = first # rest
      \<and> join newline (first # rest) = docText
      \<and> parse_resolve item docText =
          item\<lparr>detail := Some (trim first),
               documentation :=
                 Some (if trim (join newline rest) = [] then trim first
                       else trim (join newline rest))\<rparr>"
    by (rule parse_resolve_lines)
  show "documentation (parse_resolve item docText) \<noteq> Some []"
    if "detail (parse_resolve item docText) \<noteq> Some []"
    using that by (rule parse_resolve_never_blank)
  show "parse_resolve item docText =
          item\<lparr>detail := Some (trim docText), documentation := Some (trim docText)\<rparr>"
    if "CHR 0x0A \<notin> set docText"
    using that by (rule parse_resolve_one_line)
  show "parse_resolve item (''Adds two numbers.'' @ newline @ ''Returns sum.'')
        = item\<lparr>detail := Some ''Adds two numbers.'', documentation := Some ''Returns sum.''\<rparr>"
    by (rule parse_resolve_two_lines)
  show "parse_resolve item
        (''  Adds. '' @ newline @ newline @ '' Takes a '' @ newline @ ''and b.  '' @ newline)
        = item\<lparr>detail := Some ''Adds.'',
               documentation := Some (''Takes a '' @ newline @ ''and b.'')\<rparr>"
    by (rule parse_resolve_spaced_lines)
  show "outcome (onCompletionResolve cfg up item) = Returned (parse_resolve item docText)"
    if "settled (callHuggingFaceAPI cfg up (resolve_prompt (label item)) 100) = Inr (JStr docText)"
    using that by (rule onCompletionResolve_text)
qed

text \<open>With the reply \<^verbatim>\<open>{"generated_text": "Adds two numbers."}\<close>, one line, every
  hypothesis holds.\<close>

theorem parse_resolve_detail_documentation_witness:
  "outcome (onCompletionResolve example_config
      (at_once (Response 200 (Parsed (JObj [(''generated_text'', JStr ''Adds two numbers.'')]))))
      example_item)
     = Returned (example_item\<lparr>detail := Some ''Adds two numbers.'',
                              documentation := Some ''Adds two numbers.''\<rparr>)
   \<and> documentation (parse_resolve example_item ''Adds two numbers.'') \<noteq> Some []"
proof -
  let ?d = "''Adds two numbers.''"
  let ?up = "at_once (Response 200 (Parsed (JObj [(''generated_text'', JStr ?d)])))"
  have h1: "CHR 0x0A \<notin> set ?d" by simp
  have h2: "settled (callHuggingFaceAPI example_config ?up (resolve_prompt (label example_item)) 100)
              = Inr (JStr ?d)"
    by (simp add: settled_example on_end_def read_reply_def)
  have h3: "trim ?d = ?d" by (simp add: trim_def is_space_def)
  note t = parse_resolve_detail_documentation [of ?d example_item example_config ?up]
  from t h1 have one: "parse_resolve example_item ?d =
      example_item\<lparr>detail := Some (trim ?d), documentation := Some (trim ?d)\<rparr>"
    by blast
  from t h2 have out: "outcome (onCompletionResolve example_config ?up example_item)
      = Returned (parse_resolve example_item ?d)"
    by blast
  have "detail (parse_resolve example_item ?d) = Some ?d"
    by (subst one) (simp add: h3)
  then have h4: "detail (parse_resolve example_item ?d) \<noteq> Some []" by simp
  from t h4 have "documentation (parse_resolve example_item ?d) \<noteq> Some []" by blast
  moreover from out one h3 have
    "outcome (onCompletionResolve example_config ?up example_item)
       = Returned (example_item\<lparr>detail := Some ?d, documentation := Some ?d\<rparr>)"
    by simp
  ultimately show ?thesis by blast
qed

text \<open>
  Claim C10. When the inference call completes with the empty string, the split gives one
  empty line and the handler returns the item with detail and documentation both set to
  the empty string; that is not the item it was given, unless both fields were the empty
  string already.
\<close>

theorem onCompletionResolve_empty_text:
  "settled (callHuggingFaceAPI cfg up (resolve_prompt (label item)) 100) = Inr (JStr []) \<Longrightarrow>
   split_on (CHR 0x0A) [] = [[]]
   \<and> outcome (onCompletionResolve cfg up item)
       = Returned (item\<lparr>detail := Some [], documentation := Some []\<rparr>)
   \<and> (detail item \<noteq> Some [] \<or> documentation item \<noteq> Some []
        \<longrightarrow> outcome (onCompletionResolve cfg up item) \<noteq> Returned item)"
proof -
  assume h: "settled (callHuggingFaceAPI cfg up (resolve_prompt (label item)) 100) = Inr (JStr [])"
  have out: "outcome (onCompletionResolve cfg up item)
      = Returned (item\<lparr>detail := Some [], documentation := Some []\<rparr>)"
    using onCompletionResolve_text [OF h] by (simp add: parse_resolve_empty)
  have changed: "item\<lparr>detail := Some [], documentation := Some []\<rparr> \<noteq> item"
    if "detail item \<noteq> Some [] \<or> documentation item \<noteq> Some []"
  proof
    assume eq: "item\<lparr>detail := Some [], documentation := Some []\<rparr> = item"
    have "detail (item\<lparr>detail := Some [], documentation := Some []\<rparr>) = Some []"
      and "documentation (item\<lparr>detail := Some [], documentation := Some []\<rparr>) = Some []"
      by simp_all
    with eq have "detail item = Some []" and "documentation item = Some []" by simp_all
    with that show False by simp
  qed
  have "split_on (CHR 0x0A) [] = [[]]" by (simp add: split_on_def)
  with out changed show ?thesis by simp
qed

text \<open>A reply with status 503 makes the call complete with the empty string; the example
  item has no detail.\<close>

theorem onCompletionResolve_empty_text_witness:
  "outcome (onCompletionResolve example_config (at_once (Response 503 Unparseable)) example_item)
     = Returned (example_item\<lparr>detail := Some [], documentation := Some []\<rparr>)
   \<and> outcome (onCompletionResolve example_config (at_once (Response 503 Unparseable)) example_item)
       \<noteq> Returned example_item"
proof -
  have h: "settled (callHuggingFaceAPI example_config (at_once (Response 503 Unparseable))
             (resolve_prompt (label example_item)) 100) = Inr (JStr [])"
    by (simp add: settled_example on_end_def)
  have d: "detail example_item \<noteq> Some []"
    by (simp add: example_item_def candidate_def)
  from onCompletionResolve_empty_text [OF h] d show ?thesis by blast
qed


section \<open>Properties of the request handlers\<close>

subsection \<open>A failed inference call\<close>

lemma settled_any_prompt:
  "settled (callHuggingFaceAPI cfg up prompt maxTokens) = settled (callHuggingFaceAPI cfg up prompt' maxTokens')"
  by (simp add: callHuggingFaceAPI_def Let_def split: option.splits)

lemma onCompletion_failed:
  assumes "settled (callHuggingFaceAPI cfg up prompt maxTokens) = Inl e"
  shows "outcome (onCompletion cfg up documents tdp) = Returned []"
proof (cases "documents (uri tdp)")
  case None
  then show ?thesis by (simp add: onCompletion_def)
next
  case (Some t)
  have "\<And>p n. settled (callHuggingFaceAPI cfg up p n) = Inl e"
    using assms settled_any_prompt by metis
  with Some show ?thesis
    by (simp add: onCompletion_def getAICompletion_def Let_def)
qed

lemma onCompletionResolve_failed:
  assumes "settled (callHuggingFaceAPI cfg up prompt maxTokens) = Inl e"
  shows "outcome (onCompletionResolve cfg up item) = Returned item"
proof -
  have "\<And>p n. settled (callHuggingFaceAPI cfg up p n) = Inl e"
    using assms settled_any_prompt by metis
  then show ?thesis by (simp add: onCompletionResolve_def Let_def)
qed

lemma onHover_failed:
  assumes "settled (callHuggingFaceAPI cfg up prompt maxTokens) = Inl e"
  shows "outcome (onHover cfg up documents tdp) = Returned None"
proof -
  have "\<And>p n. settled (callHuggingFaceAPI cfg up p n) = Inl e"
    using assms settled_any_prompt by metis
  then show ?thesis by (simp add: onHover_def Let_def split: option.splits)
qed

lemma onSignatureHelp_failed:
  assumes "settled (callHuggingFaceAPI cfg up prompt maxTokens) = Inl e"
    and "invoked (onSignatureHelp cfg up documents tdp) \<noteq> []"
  shows "outcome (onSignatureHelp cfg up documents tdp) = Returned None"
proof -
  have fails: "\<And>p n. settled (callHuggingFaceAPI cfg up p n) = Inl e"
    using assms settled_any_prompt by metis
  show ?thesis
  proof (cases "documents (uri tdp)")
    case None
    then show ?thesis by (simp add: onSignatureHelp_def)
  next
    case (Some t)
    show ?thesis
    proof (cases "at_index (split_on (CHR 0x0A) t) (line (position tdp))")
      case None
      with Some assms(2) show ?thesis by (simp add: onSignatureHelp_def Let_def)
    next
      case inner: (Some currentLine)
      show ?thesis
      proof (cases "lastIndexOf (substring currentLine 0 (character (position tdp))) (CHR ''('')")
        case None
        with Some inner show ?thesis by (simp add: onSignatureHelp_def Let_def)
      next
        case found: (Some functionCallStart)
        with Some inner fails show ?thesis by (simp add: onSignatureHelp_def Let_def)
      qed
    qed
  qed
qed

lemma missing_key_result:
  "HUGGINGFACE_API_KEY cfg = None \<or> HUGGINGFACE_API_KEY cfg = Some [] \<Longrightarrow>
   callHuggingFaceAPI cfg up prompt maxTokens
     = \<lparr>sent = None, settled = Inl (Error ''Hugging Face API Key is missing'')\<rparr>"
  by (auto simp: callHuggingFaceAPI_def)

lemma signature_call_in_print:
  "invoked (onSignatureHelp cfg up example_documents (at_position 0 6)) \<noteq> []"
  by (simp add: onSignatureHelp_def Let_def example_documents_def at_position_def
      split_on_def at_index_def substring_def)

text \<open>
  Claim C2, as stated, fails: with no key configured the client rejects with the
  missing-key error, and the resolve handler returns the item it was given instead of
  throwing that error to its caller.
\<close>

theorem missing_key_not_propagated:
  "settled (callHuggingFaceAPI no_key_config (at_once (Response 200 Unparseable))
      (resolve_prompt (label example_item)) 100)
     = Inl (Error ''Hugging Face API Key is missing'')
   \<and> outcome (onCompletionResolve no_key_config (at_once (Response 200 Unparseable)) example_item)
       = Returned example_item
   \<and> outcome (onCompletionResolve no_key_config (at_once (Response 200 Unparseable)) example_item)
       \<noteq> Thrown (Error ''Hugging Face API Key is missing'')"
proof -
  have s: "settled (callHuggingFaceAPI no_key_config (at_once (Response 200 Unparseable))
      (resolve_prompt (label example_item)) 100) = Inl (Error ''Hugging Face API Key is missing'')"
    by (simp add: callHuggingFaceAPI_def no_key_config_def)
  from onCompletionResolve_failed [OF s] s show ?thesis by simp
qed

text \<open>
  Claim C2, amended. With the key absent or empty the client rejects with the missing-key
  error and sends no request. Every handler treats a rejected inference call alike,
  whatever the error (missing key, refused options, network error, timeout): completion
  returns the empty list, resolve the item it was given, hover nothing, and signature help
  nothing whenever it made the call. No handler throws the error to its caller.
\<close>

theorem inference_failure_converted:
  "(HUGGINGFACE_API_KEY cfg = None \<or> HUGGINGFACE_API_KEY cfg = Some []
      \<longrightarrow> callHuggingFaceAPI cfg up prompt maxTokens
            = \<lparr>sent = None, settled = Inl (Error ''Hugging Face API Key is missing'')\<rparr>)
   \<and> (settled (callHuggingFaceAPI cfg up prompt maxTokens) = Inl e
      \<longrightarrow> outcome (onCompletion cfg up documents tdp) = Returned []
          \<and> outcome (onCompletionResolve cfg up item) = Returned item
          \<and> outcome (onHover cfg up documents tdp) = Returned None
          \<and> (invoked (onSignatureHelp cfg up documents tdp) \<noteq> []
               \<longrightarrow> outcome (onSignatureHelp cfg up documents tdp) = Returned None))"
  using missing_key_result [of cfg up prompt maxTokens]
    onCompletion_failed [of cfg up prompt maxTokens e documents tdp]
    onCompletionResolve_failed [of cfg up prompt maxTokens e item]
    onHover_failed [of cfg up prompt maxTokens e documents tdp]
    onSignatureHelp_failed [of cfg up prompt maxTokens e documents tdp]
  by blast

text \<open>The example without a key, a healthy upstream, and the cursor after the parenthesis
  of \<^verbatim>\<open>print(\<close>, where signature help makes the call.\<close>

theorem inference_failure_converted_witness:
  "callHuggingFaceAPI no_key_config (at_once (Response 200 Unparseable)) [] 100
     = \<lparr>sent = None, settled = Inl (Error ''Hugging Face API Key is missing'')\<rparr>
   \<and> outcome (onCompletion no_key_config (at_once (Response 200 Unparseable)) example_documents
        (at_position 0 6)) = Returned []
   \<and> outcome (onCompletionResolve no_key_config (at_once (Response 200 Unparseable)) example_item)
       = Returned example_item
   \<and> outcome (onHover no_key_config (at_once (Response 200 Unparseable)) example_documents
        (at_position 0 6)) = Returned None
   \<and> outcome (onSignatureHelp no_key_config (at_once (Response 200 Unparseable)) example_documents
        (at_position 0 6)) = Returned None"
proof -
  let ?up = "at_once (Response 200 Unparseable)"
  have k: "HUGGINGFACE_API_KEY no_key_config = None \<or> HUGGINGFACE_API_KEY no_key_config = Some []"
    by (simp add: no_key_config_def)
  have s: "settled (callHuggingFaceAPI no_key_config ?up [] 100)
             = Inl (Error ''Hugging Face API Key is missing'')"
    by (simp add: callHuggingFaceAPI_def no_key_config_def)
  have i: "invoked (onSignatureHelp no_key_config ?up example_documents (at_position 0 6)) \<noteq> []"
    by (rule signature_call_in_print)
  from inference_failure_converted [of no_key_config ?up "[]" 100
      "Error ''Hugging Face API Key is missing''" example_documents "at_position 0 6" example_item]
    k s i
  show ?thesis by blast
qed

subsection \<open>The inactivity timer\<close>

lemma settled_timed_out:
  assumes "HUGGINGFACE_API_KEY cfg = Some key" and "key \<noteq> []" and "\<not> request_throws cfg key"
    and "(\<exists>idle \<in> set (idle_ms up). 5000 \<le> idle) \<or> final up = Silence"
  shows "settled (callHuggingFaceAPI cfg up prompt maxTokens) = Inl (Error ''Request timed out'')"
  using settled_written [OF assms(1-3), of up prompt maxTokens] assms(4)
  by (auto simp: timer_fires_iff)

text \<open>
  Claim C6, as stated, fails: the timer bounds the inactivity of the socket, not the call.
  The slow upstream takes 2500 milliseconds to connect and then sends its reply after two
  periods of 3000 milliseconds; the call lasts 8500 milliseconds, more than 5000, and
  completes with the generated text, without a timeout error.
\<close>

theorem slow_call_not_timed_out:
  "5000 < elapsed_ms slow_upstream
   \<and> settled (callHuggingFaceAPI example_config slow_upstream [] 100) = Inr (JStr ''x = 1'')"
proof -
  have "\<forall>idle \<in> set (idle_ms slow_upstream). idle < 5000"
    by (simp add: slow_upstream_def)
  moreover have "final slow_upstream
      = Response 200 (Parsed (JObj [(''generated_text'', JStr ''x = 1'')]))"
    by (simp add: slow_upstream_def)
  ultimately have "settled (callHuggingFaceAPI example_config slow_upstream [] 100)
      = Inr (on_end 200 (Parsed (JObj [(''generated_text'', JStr ''x = 1'')])))"
    using settled_response [OF example_config_key _ example_config_accepted] by simp
  moreover have "on_end 200 (Parsed (JObj [(''generated_text'', JStr ''x = 1'')])) = JStr ''x = 1''"
    by (simp add: on_end_def read_reply_def)
  moreover have "5000 < elapsed_ms slow_upstream"
    by (simp add: elapsed_ms_def slow_upstream_def)
  ultimately show ?thesis by simp
qed

text \<open>
  Claim C6, amended. Every request the client writes sets the inactivity timer of its
  socket to 5000 milliseconds. When a period of inactivity of the connected socket reaches
  5000 milliseconds, or the socket stays silent for ever, the promise is rejected with the
  error \<^verbatim>\<open>Request timed out\<close>, which is not the empty text, and each handler turns the
  rejection into its empty result: the empty list, the item it was given, no hover, and
  no signature help where the call was made. When no period of inactivity reaches 5000
  milliseconds and the response ends, the call completes with what the \<^verbatim>\<open>end\<close> handler
  gives, however long it lasted, and never with the timeout error.
\<close>

theorem timeout_converted:
  assumes "HUGGINGFACE_API_KEY cfg = Some key" and "key \<noteq> []" and "\<not> request_throws cfg key"
  shows "(\<exists>q. sent (callHuggingFaceAPI cfg up prompt maxTokens) = Some q \<and> timeout_ms q = 5000)
     \<and> ((\<exists>idle \<in> set (idle_ms up). 5000 \<le> idle) \<or> final up = Silence
          \<longrightarrow> settled (callHuggingFaceAPI cfg up prompt maxTokens)
                = Inl (Error ''Request timed out'')
              \<and> settled (callHuggingFaceAPI cfg up prompt maxTokens) \<noteq> Inr (JStr [])
              \<and> outcome (onCompletion cfg up documents tdp) = Returned []
              \<and> outcome (onCompletionResolve cfg up item) = Returned item
              \<and> outcome (onHover cfg up documents tdp) = Returned None
              \<and> (invoked (onSignatureHelp cfg up documents tdp) \<noteq> []
                   \<longrightarrow> outcome (onSignatureHelp cfg up documents tdp) = Returned None))
     \<and> ((\<forall>idle \<in> set (idle_ms up'). idle < 5000) \<and> final up' = Response statusCode b
          \<longrightarrow> settled (callHuggingFaceAPI cfg up' prompt maxTokens) = Inr (on_end statusCode b)
              \<and> settled (callHuggingFaceAPI cfg up' prompt maxTokens)
                  \<noteq> Inl (Error ''Request timed out''))"
proof (intro conjI impI)
  show "\<exists>q. sent (callHuggingFaceAPI cfg up prompt maxTokens) = Some q \<and> timeout_ms q = 5000"
    using sent_written [OF assms, of up prompt maxTokens] by blast
next
  assume h: "(\<exists>idle \<in> set (idle_ms up). 5000 \<le> idle) \<or> final up = Silence"
  have t: "settled (callHuggingFaceAPI cfg up prompt maxTokens) = Inl (Error ''Request timed out'')"
    using assms h by (rule settled_timed_out)
  show "settled (callHuggingFaceAPI cfg up prompt maxTokens) = Inl (Error ''Request timed out'')"
    by (rule t)
  show "settled (callHuggingFaceAPI cfg up prompt maxTokens) \<noteq> Inr (JStr [])"
    using t by simp
  show "outcome (onCompletion cfg up documents tdp) = Returned []"
    using t by (rule onCompletion_failed)
  show "outcome (onCompletionResolve cfg up item) = Returned item"
    using t by (rule onCompletionResolve_failed)
  show "outcome (onHover cfg up documents tdp) = Returned None"
    using t by (rule onHover_failed)
  show "outcome (onSignatureHelp cfg up documents tdp) = Returned None"
    if "invoked (onSignatureHelp cfg up documents tdp) \<noteq> []"
    using t that by (rule onSignatureHelp_failed)
next
  assume h: "(\<forall>idle \<in> set (idle_ms up'). idle < 5000) \<and> final up' = Response statusCode b"
  have r: "settled (callHuggingFaceAPI cfg up' prompt maxTokens) = Inr (on_end statusCode b)"
    using settled_response [OF assms, of up' statusCode b prompt maxTokens] h by blast
  show "settled (callHuggingFaceAPI cfg up' prompt maxTokens) = Inr (on_end statusCode b)"
    by (rule r)
  show "settled (callHuggingFaceAPI cfg up' prompt maxTokens) \<noteq> Inl (Error ''Request timed out'')"
    using r by simp
qed

text \<open>A key is configured in the example and its options are accepted. The stalled
  upstream is inactive for 7000 milliseconds before its reply, so the timer fires first;
  signature help makes the call after the parenthesis of \<^verbatim>\<open>print(\<close>. The slow upstream is
  never inactive for 5000 milliseconds.\<close>

theorem timeout_converted_witness:
  "settled (callHuggingFaceAPI example_config stalled_upstream [] 100)
     = Inl (Error ''Request timed out'')
   \<and> outcome (onCompletion example_config stalled_upstream example_documents (at_position 0 6))
       = Returned []
   \<and> outcome (onSignatureHelp example_config stalled_upstream example_documents (at_position 0 6))
       = Returned None
   \<and> settled (callHuggingFaceAPI example_config slow_upstream [] 100)
       = Inr (on_end 200 (Parsed (JObj [(''generated_text'', JStr ''x = 1'')])))"
proof -
  have n: "''hf_key'' \<noteq> []" by simp
  have h1: "(\<exists>idle \<in> set (idle_ms stalled_upstream). 5000 \<le> idle) \<or> final stalled_upstream = Silence"
    by (simp add: stalled_upstream_def)
  have h2: "(\<forall>idle \<in> set (idle_ms slow_upstream). idle < 5000)
      \<and> final slow_upstream = Response 200 (Parsed (JObj [(''generated_text'', JStr ''x = 1'')]))"
    by (simp add: slow_upstream_def)
  have i: "invoked (onSignatureHelp example_config stalled_upstream example_documents
             (at_position 0 6)) \<noteq> []"
    by (rule signature_call_in_print)
  from timeout_converted [OF example_config_key n example_config_accepted,
      where up = stalled_upstream and up' = slow_upstream and prompt = "[]" and maxTokens = 100
        and documents = example_documents and tdp = "at_position 0 6" and item = example_item
        and statusCode = 200 and b = "Parsed (JObj [(''generated_text'', JStr ''x = 1'')])"]
    h1 h2 i
  show ?thesis by blast
qed

subsection \<open>Hover on an empty reply\<close>

lemma word_range_Some:
  assumes "getWordRangeAtPosition l p = Some r"
  shows "0 \<le> p \<and> p < int (length l) \<and> is_identifier_char (l ! nat p)
         \<and> r = \<lparr>start = scan_start l (nat p), end' = scan_end l (nat p + 1)\<rparr>"
  using assms by (auto simp: getWordRangeAtPosition_def Let_def split: if_splits)

lemma word_range_contains:
  assumes "getWordRangeAtPosition l (int c) = Some r"
  shows "start r \<le> c \<and> c < end' r \<and> end' r \<le> length l"
proof -
  from word_range_Some [OF assms]
  have b: "c < length l" and r: "r = \<lparr>start = scan_start l c, end' = scan_end l (c + 1)\<rparr>"
    by simp_all
  have "scan_start l c \<le> c" by (rule scan_start_le)
  moreover have "c + 1 \<le> scan_end l (c + 1)" by (rule scan_end_ge)
  moreover have "scan_end l (c + 1) \<le> length l" using b by (intro scan_end_le_length) simp
  ultimately show ?thesis by (simp add: r)
qed

lemma word_range_maximal:
  assumes "getWordRangeAtPosition l (int c) = Some r"
  shows "(\<forall>i. start r \<le> i \<and> i < end' r \<longrightarrow> is_identifier_char (l ! i))
         \<and> (start r = 0 \<or> \<not> is_identifier_char (l ! (start r - 1)))
         \<and> (end' r = length l \<or> \<not> is_identifier_char (l ! end' r))"
proof -
  from word_range_Some [OF assms]
  have b: "c < length l" and a: "is_identifier_char (l ! c)"
    and r: "r = \<lparr>start = scan_start l c, end' = scan_end l (c + 1)\<rparr>"
    by simp_all
  have inside: "is_identifier_char (l ! i)"
    if "scan_start l c \<le> i" and "i < scan_end l (c + 1)" for i
  proof (cases "i < c")
    case True
    with that(1) show ?thesis by (rule scan_start_inside)
  next
    case False
    show ?thesis
    proof (cases "i = c")
      case True
      with a show ?thesis by simp
    next
      case False
      with \<open>\<not> i < c\<close> have "c + 1 \<le> i" by simp
      then show ?thesis using that(2) by (rule scan_end_inside)
    qed
  qed
  have "scan_start l c = 0 \<or> \<not> is_identifier_char (l ! (scan_start l c - 1))"
    by (rule scan_start_maximal)
  moreover have "scan_end l (c + 1) = length l \<or> \<not> is_identifier_char (l ! scan_end l (c + 1))"
    using b by (intro scan_end_maximal) simp
  ultimately show ?thesis using inside by (simp add: r)
qed

lemma onHover_call:
  assumes "invoked (onHover cfg up documents tdp) = [(prompt, maxTokens)]"
  shows "\<exists>t r. documents (uri tdp) = Some t
      \<and> line (position tdp) < length (split_on (CHR 0x0A) t)
      \<and> getWordRangeAtPosition (split_on (CHR 0x0A) t ! line (position tdp))
            (int (character (position tdp))) = Some r
      \<and> prompt = hover_prompt
            (substring (split_on (CHR 0x0A) t ! line (position tdp)) (start r) (end' r))
            (split_on (CHR 0x0A) t ! line (position tdp))
      \<and> maxTokens = 100
      \<and> outcome (onHover cfg up documents tdp) =
          (case settled (callHuggingFaceAPI cfg up prompt 100) of
             Inl error \<Rightarrow> Returned None
           | Inr (JStr hoverText) \<Rightarrow>
               Returned (Some (hover_contents hoverText
                 (substring (split_on (CHR 0x0A) t ! line (position tdp)) (start r) (end' r))))
           | Inr _ \<Rightarrow> Returned None)"
  using assms
  by (auto simp: onHover_def Let_def split: option.splits if_splits)

lemma onHover_fallback:
  assumes "invoked (onHover cfg up documents tdp) = [(prompt, maxTokens)]"
    and "settled (callHuggingFaceAPI cfg up prompt maxTokens) = Inr (JStr hoverText)"
    and "trim hoverText = []"
  shows "\<exists>t r. documents (uri tdp) = Some t
      \<and> line (position tdp) < length (split_on (CHR 0x0A) t)
      \<and> getWordRangeAtPosition (split_on (CHR 0x0A) t ! line (position tdp))
            (int (character (position tdp))) = Some r
      \<and> start r \<le> character (position tdp) \<and> character (position tdp) < end' r
      \<and> end' r \<le> length (split_on (CHR 0x0A) t ! line (position tdp))
      \<and> (\<forall>i. start r \<le> i \<and> i < end' r
            \<longrightarrow> is_identifier_char (split_on (CHR 0x0A) t ! line (position tdp) ! i))
      \<and> (start r = 0
           \<or> \<not> is_identifier_char (split_on (CHR 0x0A) t ! line (position tdp) ! (start r - 1)))
      \<and> (end' r = length (split_on (CHR 0x0A) t ! line (position tdp))
           \<or> \<not> is_identifier_char (split_on (CHR 0x0A) t ! line (position tdp) ! end' r))
      \<and> outcome (onHover cfg up documents tdp) =
          Returned (Some \<lparr>contents = \<lparr>markup_kind = ''markdown'',
            markup_value = ''No information available for '' @ [CHR 0x27]
              @ substring (split_on (CHR 0x0A) t ! line (position tdp)) (start r) (end' r)
              @ [CHR 0x27]\<rparr>\<rparr>)"
proof -
  from onHover_call [OF assms(1)] obtain t r where
    d: "documents (uri tdp) = Some t"
    and l: "line (position tdp) < length (split_on (CHR 0x0A) t)"
    and w: "getWordRangeAtPosition (split_on (CHR 0x0A) t ! line (position tdp))
              (int (character (position tdp))) = Some r"
    and m: "maxTokens = 100"
    and o: "outcome (onHover cfg up documents tdp) =
          (case settled (callHuggingFaceAPI cfg up prompt 100) of
             Inl error \<Rightarrow> Returned None
           | Inr (JStr hoverText) \<Rightarrow>
               Returned (Some (hover_contents hoverText
                 (substring (split_on (CHR 0x0A) t ! line (position tdp)) (start r) (end' r))))
           | Inr _ \<Rightarrow> Returned None)"
    by blast
  from o assms(2,3) m have
    "outcome (onHover cfg up documents tdp) =
          Returned (Some \<lparr>contents = \<lparr>markup_kind = ''markdown'',
            markup_value = ''No information available for '' @ [CHR 0x27]
              @ substring (split_on (CHR 0x0A) t ! line (position tdp)) (start r) (end' r)
              @ [CHR 0x27]\<rparr>\<rparr>)"
    by (simp add: hover_contents_def no_information_def)
  with d l w word_range_contains [OF w] word_range_maximal [OF w] show ?thesis by blast
qed

lemma word_range_in_print:
  "getWordRangeAtPosition ''print(x)'' 2 = Some \<lparr>start = 0, end' = 5\<rparr>"
  by code_simp

lemma onHover_example:
  "invoked (onHover example_config (at_once (Response 503 Unparseable)) example_documents
      (at_position 0 2))
     = [(hover_prompt ''print'' ''print(x)'', 100)]
   \<and> settled (callHuggingFaceAPI example_config (at_once (Response 503 Unparseable))
        (hover_prompt ''print'' ''print(x)'') 100) = Inr (JStr [])
   \<and> outcome (onHover example_config (at_once (Response 503 Unparseable)) example_documents
        (at_position 0 2))
       = Returned (Some \<lparr>contents = \<lparr>markup_kind = ''markdown'',
                                     markup_value = no_information ''print''\<rparr>\<rparr>)
   \<and> outcome (onHover example_config (at_once (Response 503 Unparseable)) example_documents
        (at_position 0 2))
       \<noteq> Returned None"
  by (simp add: onHover_def Let_def example_documents_def at_position_def split_on_def
      word_range_in_print substring_def trim_def is_space_def settled_example on_end_def
      hover_contents_def)

text \<open>
  Claim C4, as stated, fails: with the cursor on \<^verbatim>\<open>print\<close> and a reply of status 503, the
  inference call completes with the empty string and the hover handler returns a hover,
  not nothing.
\<close>

theorem onHover_empty_text_not_null:
  "settled (callHuggingFaceAPI example_config (at_once (Response 503 Unparseable))
      (hover_prompt ''print'' ''print(x)'') 100) = Inr (JStr [])
   \<and> invoked (onHover example_config (at_once (Response 503 Unparseable)) example_documents
        (at_position 0 2))
       = [(hover_prompt ''print'' ''print(x)'', 100)]
   \<and> outcome (onHover example_config (at_once (Response 503 Unparseable)) example_documents
        (at_position 0 2))
       \<noteq> Returned None"
  using onHover_example by blast

text \<open>
  Claim C4, amended. When the hover handler made the inference call and the call completed
  with a text that is empty after trimming, the document is open, the cursor is on one of
  its lines, and \<^verbatim>\<open>getWordRangeAtPosition\<close> gives a range on that line which contains the
  cursor, holds identifier characters only and cannot be extended on either side. The
  handler returns a hover whose Markdown content is the sentence
  \<^verbatim>\<open>No information available for '<word>'\<close>, where the word is the text of the line in
  that range: the identifier under the cursor.
\<close>

theorem onHover_empty_text:
  assumes "invoked (onHover cfg up documents tdp) = [(prompt, maxTokens)]"
    and "settled (callHuggingFaceAPI cfg up prompt maxTokens) = Inr (JStr hoverText)"
    and "trim hoverText = []"
  shows "\<exists>t r. documents (uri tdp) = Some t
      \<and> line (position tdp) < length (split_on (CHR 0x0A) t)
      \<and> getWordRangeAtPosition (split_on (CHR 0x0A) t ! line (position tdp))
            (int (character (position tdp))) = Some r
      \<and> start r \<le> character (position tdp) \<and> character (position tdp) < end' r
      \<and> end' r \<le> length (split_on (CHR 0x0A) t ! line (position tdp))
      \<and> (\<forall>i. start r \<le> i \<and> i < end' r
            \<longrightarrow> is_identifier_char (split_on (CHR 0x0A) t ! line (position tdp) ! i))
      \<and> (start r = 0
           \<or> \<not> is_identifier_char (split_on (CHR 0x0A) t ! line (position tdp) ! (start r - 1)))
      \<and> (end' r = length (split_on (CHR 0x0A) t ! line (position tdp))
           \<or> \<not> is_identifier_char (split_on (CHR 0x0A) t ! line (position tdp) ! end' r))
      \<and> outcome (onHover cfg up documents tdp) =
          Returned (Some \<lparr>contents = \<lparr>markup_kind = ''markdown'',
            markup_value = ''No information available for '' @ [CHR 0x27]
              @ substring (split_on (CHR 0x0A) t ! line (position tdp)) (start r) (end' r)
              @ [CHR 0x27]\<rparr>\<rparr>)"
  using assms by (rule onHover_fallback)

text \<open>The example of the counterexample satisfies the three hypotheses; its word is
  \<^verbatim>\<open>print\<close>.\<close>

theorem onHover_empty_text_witness:
  "outcome (onHover example_config (at_once (Response 503 Unparseable)) example_documents
      (at_position 0 2))
     = Returned (Some \<lparr>contents = \<lparr>markup_kind = ''markdown'',
         markup_value = ''No information available for '' @ [CHR 0x27] @ ''print''
           @ [CHR 0x27]\<rparr>\<rparr>)"
proof -
  let ?up = "at_once (Response 503 Unparseable)"
  have i: "invoked (onHover example_config ?up example_documents (at_position 0 2))
             = [(hover_prompt ''print'' ''print(x)'', 100)]"
    using onHover_example by blast
  have s: "settled (callHuggingFaceAPI example_config ?up
             (hover_prompt ''print'' ''print(x)'') 100) = Inr (JStr [])"
    using onHover_example by blast
  have e: "trim [] = []" by (simp add: trim_def)
  from onHover_empty_text [OF i s e] obtain t r where
    d: "example_documents (uri (at_position 0 2)) = Some t"
    and w: "getWordRangeAtPosition (split_on (CHR 0x0A) t ! line (position (at_position 0 2)))
              (int (character (position (at_position 0 2)))) = Some r"
    and o: "outcome (onHover example_config ?up example_documents (at_position 0 2)) =
          Returned (Some \<lparr>contents = \<lparr>markup_kind = ''markdown'',
            markup_value = ''No information available for '' @ [CHR 0x27]
              @ substring (split_on (CHR 0x0A) t ! line (position (at_position 0 2)))
                  (start r) (end' r)
              @ [CHR 0x27]\<rparr>\<rparr>)"
    by blast
  from d have t: "t = ''print(x)''"
    by (simp add: example_documents_def at_position_def)
  have ln: "split_on (CHR 0x0A) ''print(x)'' ! line (position (at_position 0 2)) = ''print(x)''"
    by (simp add: split_on_def at_position_def)
  from w have "r = \<lparr>start = 0, end' = 5\<rparr>"
    unfolding t ln by (simp add: at_position_def word_range_in_print)
  then have "substring ''print(x)'' (start r) (end' r) = ''print''"
    by (simp add: substring_def)
  with o show ?thesis unfolding t ln by simp
qed

subsection \<open>Positions outside the document\<close>

lemma onHover_out_of_bounds:
  assumes "documents (uri tdp) = Some t"
    and "line (position tdp) \<ge> length (split_on (CHR 0x0A) t)
         \<or> character (position tdp) \<ge> length (split_on (CHR 0x0A) t ! line (position tdp))"
  shows "onHover cfg up documents tdp = \<lparr>invoked = [], requests = [], outcome = Returned None\<rparr>"
  using assms by (auto simp: onHover_def Let_def)

lemma onCompletion_always_calls:
  assumes "documents (uri tdp) = Some t" and "HUGGINGFACE_API_KEY cfg = Some key" and "key \<noteq> []"
    and "\<not> request_throws cfg key"
  shows "length (invoked (onCompletion cfg up documents tdp)) = 1
         \<and> length (requests (onCompletion cfg up documents tdp)) = 1"
proof -
  define h where "h = getAICompletion cfg up
      (join newline (slice (split_on (CHR 0x0A) t) (max 0 (line (position tdp) - 5))
         (line (position tdp) + 1)))
      (at_index (split_on (CHR 0x0A) t) (line (position tdp)))"
  have h1: "length (invoked h) = 1 \<and> length (requests h) = 1"
    using assms(2-4)
    by (simp add: h_def getAICompletion_def Let_def callHuggingFaceAPI_def sent_list_def)
  have "onCompletion cfg up documents tdp = h
        \<or> onCompletion cfg up documents tdp = h\<lparr>outcome := Returned []\<rparr>"
    using assms(1) by (cases "outcome h") (simp_all add: onCompletion_def Let_def h_def)
  with h1 show ?thesis by auto
qed

lemma example_request_written:
  "length (sent_list (callHuggingFaceAPI example_config up prompt maxTokens)) = 1"
  using sent_written [OF example_config_key _ example_config_accepted, of up prompt maxTokens]
  by (auto simp: sent_list_def)

text \<open>
  Claim C3. The hover handler rejects a position outside the document without calling
  the inference client; the other two handlers have no such test. In the document of the
  one line \<^verbatim>\<open>print(x)\<close>, signature help at line 1 reads a line that is not there and
  throws a \<^verbatim>\<open>TypeError\<close>; completion at line 1 sends a request; and signature help at
  line 0, offset 99, beyond the end of the line, sends a request too.
\<close>

theorem out_of_bounds_not_rejected:
  "outcome (onSignatureHelp cfg up example_documents (at_position 1 0)) = Thrown TypeError
   \<and> length (requests (onCompletion example_config up example_documents (at_position 1 0))) = 1
   \<and> length (requests (onSignatureHelp example_config up example_documents (at_position 0 99))) = 1"
proof (intro conjI)
  show "outcome (onSignatureHelp cfg up example_documents (at_position 1 0)) = Thrown TypeError"
    by (simp add: onSignatureHelp_def Let_def example_documents_def at_position_def
        split_on_def at_index_def)
  show "length (requests (onCompletion example_config up example_documents (at_position 1 0))) = 1"
    using onCompletion_always_calls [of example_documents "at_position 1 0" "''print(x)''"
        example_config "''hf_key''" up] example_config_accepted
    by (simp add: example_documents_def at_position_def example_config_def)
  show "length (requests (onSignatureHelp example_config up example_documents (at_position 0 99))) = 1"
    by (simp add: onSignatureHelp_def Let_def example_documents_def at_position_def
        split_on_def at_index_def substring_def example_request_written)
qed

end
